theory Spec2Isabelle
  imports Main "HOL-Library.Sublist"
begin

section \<open>Python string primitives used by the backend\<close>

text \<open>
  A Python \<open>str\<close> is modelled as a \<open>string\<close>, the list of the bytes of its UTF-8
  encoding. Substring tests and \<open>split\<close> agree on code points and on UTF-8 bytes;
  \<open>upper\<close>, \<open>lower\<close> and \<open>strip\<close> are modelled on the ASCII range (letters
  \<open>a..z\<close>, the ten ASCII characters for which \<open>str.isspace\<close> holds) and leave every
  other byte as it is.
\<close>

definition ascii_lowercase :: string where
  "ascii_lowercase = ''abcdefghijklmnopqrstuvwxyz''"

definition ascii_uppercase :: string where
  "ascii_uppercase = ''ABCDEFGHIJKLMNOPQRSTUVWXYZ''"

definition upper_char :: "char \<Rightarrow> char" where
  "upper_char c = (case map_of (zip ascii_lowercase ascii_uppercase) c of None \<Rightarrow> c | Some u \<Rightarrow> u)"

definition lower_char :: "char \<Rightarrow> char" where
  "lower_char c = (case map_of (zip ascii_uppercase ascii_lowercase) c of None \<Rightarrow> c | Some l \<Rightarrow> l)"

definition py_upper :: "string \<Rightarrow> string" where
  "py_upper s = map upper_char s"

definition py_lower :: "string \<Rightarrow> string" where
  "py_lower s = map lower_char s"

definition is_space :: "char \<Rightarrow> bool" where
  "is_space c = (c \<in> set [CHR 0x09, CHR 0x0A, CHR 0x0B, CHR 0x0C, CHR 0x0D,
                          CHR 0x1C, CHR 0x1D, CHR 0x1E, CHR 0x1F, CHR 0x20])"

definition py_strip :: "string \<Rightarrow> string" where
  "py_strip s = rev (dropWhile is_space (rev (dropWhile is_space s)))"

text \<open>\<open>sub in s\<close>: \<open>sub\<close> occurs in \<open>s\<close> as a contiguous substring.\<close>

fun py_in :: "string \<Rightarrow> string \<Rightarrow> bool" where
  "py_in sub [] = (sub = [])"
| "py_in sub (c # cs) = (prefix sub (c # cs) \<or> py_in sub cs)"

text \<open>
  \<open>s.split(sep)\<close> for a non-empty separator: the scan goes from left to right, cuts
  at every occurrence it meets and resumes behind it, so occurrences never overlap.
  \<open>skip\<close> counts the characters of a matched separator still to be passed over,
  \<open>cur\<close> is the current piece, reversed. (Python raises \<open>ValueError\<close> on an empty
  separator; both separators of the backend are non-empty literals.)
\<close>

fun split_go :: "string \<Rightarrow> nat \<Rightarrow> string \<Rightarrow> string \<Rightarrow> string list" where
  "split_go sep skip cur [] = [rev cur]"
| "split_go sep skip cur (c # cs) =
     (if 0 < skip then split_go sep (skip - 1) cur cs
      else if prefix sep (c # cs) then rev cur # split_go sep (length sep - 1) [] cs
      else split_go sep 0 (c # cur) cs)"

definition py_split :: "string \<Rightarrow> string \<Rightarrow> string list" where
  "py_split sep s = split_go sep 0 [] s"

text \<open>\<open>sep.join(xs)\<close>.\<close>

fun py_join :: "string \<Rightarrow> string list \<Rightarrow> string" where
  "py_join sep [] = []"
| "py_join sep [x] = x"
| "py_join sep (x # y # ys) = x @ sep @ py_join sep (y # ys)"

text \<open>\<open>x or d\<close> for an optional string \<open>x\<close>: \<open>None\<close> and the empty string are falsy.\<close>

definition py_or :: "string option \<Rightarrow> string \<Rightarrow> string" where
  "py_or x d = (case x of None \<Rightarrow> d | Some s \<Rightarrow> if s = [] then d else s)"

section \<open>Data model\<close>

text \<open>
  A value decoded by \<open>json.loads\<close>: \<open>None\<close>, \<open>bool\<close>, \<open>int\<close>, \<open>float\<close> (kept as
  its lexeme), \<open>str\<close>, \<open>list\<close>, and \<open>dict\<close> (an association list with distinct
  keys).
\<close>

datatype json =
    JNull
  | JBool bool
  | JInt int
  | JFloat string
  | JString string
  | JArray "json list"
  | JObject "(string \<times> json) list"

text \<open>
  \<open>ChatRequest\<close> after request validation. An omitted \<open>mode\<close> arrives as
  \<open>Some ''chat''\<close> (the field's default), an explicit null as \<open>None\<close>.
\<close>

record chat_request =
  user_message :: string
  mode :: "string option"
  session_id :: "string option"

text \<open>\<open>ChatResponse\<close>; its \<open>session_id\<close> field is named \<open>session_id_out\<close> here.\<close>

record chat_response =
  ai_reply :: string
  grammar_correction :: "string option"
  session_id_out :: string

text \<open>
  A history entry \<open>{"role": r, "parts": [t]}\<close>. The list under \<open>parts\<close> always has
  exactly one element, kept in \<open>part\<close>; it is whatever Python value the handler
  stored, a \<open>str\<close> in every turn of a request that succeeds.
\<close>

record message =
  role :: string
  part :: json

type_synonym conversations = "string \<rightharpoonup> message list"

type_synonym gen_config = "(string \<times> string) list"

text \<open>
  The process-wide provider state set by the bootstrap: \<open>model\<close> is the handle
  (\<open>None\<close> while unset; a handle is identified by the model name it was built
  from), \<open>TARGET_MODEL_NAME\<close> the selected identifier.
\<close>

record config =
  model :: "string option"
  TARGET_MODEL_NAME :: string

text \<open>
  What one request obtains from outside the repository:
  \<^item> \<open>generate_content m prompt cfg\<close>: the provider call on handle \<open>m\<close> followed by
    reading \<open>response.text\<close>; \<open>Inl e\<close> when either raises, \<open>e\<close> being \<open>str\<close> of
    the exception;
  \<^item> \<open>json_loads\<close>: \<open>json.loads\<close>, \<open>Inl e\<close> when it raises;
  \<^item> \<open>str_value\<close>: Python's \<open>str\<close> on a stored value that is not a \<open>str\<close>;
  \<^item> \<open>uuid4\<close>: the value of \<open>str(uuid.uuid4())\<close> drawn for this request.
\<close>

record env =
  generate_content :: "string \<Rightarrow> string \<Rightarrow> gen_config \<Rightarrow> string + string"
  json_loads :: "string \<Rightarrow> string + json"
  str_value :: "json \<Rightarrow> string"
  uuid4 :: string

datatype http_error = ResponseValidationError

section \<open>Prompt templates\<close>

definition CHAT_PROMPT :: string where
  \<open>CHAT_PROMPT =
   ''\<newline>'' @
   ''You are a warm, supportive, and casual AI English conversation partner.\<newline>'' @
   ''Speak like a friendly human, not a teacher. Encourage confidence and free expression.\<newline>'' @
   ''Use simple, natural English. Keep responses conversational and engaging.\<newline>'' @
   ''Ask follow-up questions to keep the chat flowing.\<newline>'' @
   ''Do NOT correct grammar unless the user explicitly asks.\<newline>'' @
   ''Avoid long explanations or lectures.\<newline>'' @
   ''Do not evaluate or score the user. Do not act as a tutor or interviewer.\<newline>'' @
   ''Do not mention being an AI or a language model.\<newline>'' @
   ''\<newline>'' @
   ''Output your response in JSON format with two keys:\<newline>'' @
   ''1. "ai_reply": Your conversational response. Keep it natural, somewhat concise (1-3 sentences), and supportive.\<newline>'' @
   ''2. "grammar_correction": Return null unless the user asks for correction.\<newline>''\<close>

definition INTERVIEW_PROMPT :: string where
  \<open>INTERVIEW_PROMPT =
   ''\<newline>'' @
   ''You are an expert AI Job Interviewer. Your goal is to conduct a highly dynamic, realistic, and adaptive mock interview.\<newline>'' @
   ''\<newline>'' @
   ''DYNAMIC FLOW RULES:\<newline>'' @
   ''1. START: If the user\'s target job role is unknown, your first question MUST be to ask what position they are interviewing for.\<newline>'' @
   ''2. ADAPT: Do NOT use fixed questions. Generate questions based on the user\'s target role, their previous answers, and the natural flow of a professional conversation.\<newline>'' @
   ''3. DEPTH: Ask follow-up questions if an answer is vague or interesting. Challenge the user like a real interviewer would.\<newline>'' @
   ''4. ONE AT A TIME: Ask ONLY one question at a time. Wait for the user\'s response.\<newline>'' @
   ''5. LENGTH: Aim for a focused interview of about 5-8 questions. If you feel the interview has reached a natural conclusion, provide the FINAL EVALUATION.\<newline>'' @
   ''\<newline>'' @
   ''FEEDBACK MECHANISM (After every user answer):\<newline>'' @
   ''You MUST provide constructive feedback in the "grammar_correction" field using this EXACT format:\<newline>'' @
   [CHR 0xF0, CHR 0x9F, CHR 0x93, CHR 0x9D] @ '' Feedback: [Concise feedback on their answer\'s content and delivery]\<newline>'' @
   [CHR 0xE2, CHR 0xAD, CHR 0x90] @ '' Score: [X] / 10\<newline>'' @
   [CHR 0xF0, CHR 0x9F, CHR 0x92, CHR 0xA1] @ '' Improvement Tip: [One specific actionable suggestion]\<newline>'' @
   ''\<newline>'' @
   ''RESPONSE STRUCTURE:\<newline>'' @
   ''The "ai_reply" field should contain ONLY your next interview question or follow-up.\<newline>'' @
   ''\<newline>'' @
   ''FINAL EVALUATION:\<newline>'' @
   ''When the interview is complete (or the user wants to stop):\<newline>'' @
   ''- "ai_reply" should contain a comprehensive summary:\<newline>'' @
   ''  - Overall Performance Summary\<newline>'' @
   ''  - Key Strengths & Areas for Improvement\<newline>'' @
   ''  - Final Interview Score\<newline>'' @
   ''  - 3 Actionable Tips for the real interview\<newline>'' @
   ''- "grammar_correction" can be null for the final evaluation.\<newline>'' @
   ''\<newline>'' @
   ''Output your response in JSON format with two keys:\<newline>'' @
   ''1. "ai_reply": Your next question or the final evaluation.\<newline>'' @
   ''2. "grammar_correction": The mandatory feedback/score/tip for the last answer (except for the start/end where it might be null).\<newline>'' @
   ''\<newline>'' @
   ''Constraints:\<newline>'' @
   ''- Maintain a professional, fair, and slightly challenging tone.\<newline>'' @
   ''- Do not mention you are an AI. Stay in character as the interviewer.\<newline>''\<close>

section \<open>Model selection bootstrap\<close>

text \<open>
  What the bootstrap obtains from outside: the two environment variables, and the
  provider library (\<open>Some e\<close> and \<open>Inl e\<close> stand for a raised exception).
\<close>

record boot_env =
  getenv_GOOGLE_API_KEY :: "string option"
  getenv_GEMINI_API_KEY :: "string option"
  configure :: "string \<Rightarrow> string option"
  list_models :: "string + string list"
  GenerativeModel :: "string \<Rightarrow> string option"

definition priority_models :: "string list" where
  "priority_models =
     [''models/gemma-3-27b-it'',
      ''models/gemma-3-12b-it'',
      ''models/gemma-3-4b-it'',
      ''models/gemini-2.0-flash'',
      ''models/gemini-flash-latest'']"

text \<open>The loop over \<open>priority_models\<close> (lines 62-65).\<close>

fun first_priority :: "string list \<Rightarrow> string list \<Rightarrow> string option" where
  "first_priority [] available_models = None"
| "first_priority (p # ps) available_models =
     (if p \<in> set available_models then Some p else first_priority ps available_models)"

text \<open>The fallback loop over \<open>available_models\<close> (lines 69-72).\<close>

fun first_gemma :: "string list \<Rightarrow> string option" where
  "first_gemma [] = None"
| "first_gemma (m # ms) =
     (if py_in ''gemma'' m \<and> py_in ''-it'' m then Some m else first_gemma ms)"

text \<open>\<open>not target_model\<close>: \<open>None\<close> and the empty string are falsy.\<close>

definition unset_target :: "string option \<Rightarrow> bool" where
  "unset_target t = (case t of None \<Rightarrow> True | Some s \<Rightarrow> s = [])"

definition select_model :: "string list \<Rightarrow> string" where
  "select_model available_models =
     (let t1 = first_priority priority_models available_models;
          t2 = (if unset_target t1
                then (case first_gemma available_models of None \<Rightarrow> t1 | Some m \<Rightarrow> Some m)
                else t1);
          t3 = (if unset_target t2
                then Some (case available_models of [] \<Rightarrow> ''models/gemini-1.5-flash'' | m # _ \<Rightarrow> m)
                else t2)
      in (case t3 of None \<Rightarrow> [] | Some t \<Rightarrow> t))"

definition unset_config :: config where
  "unset_config = \<lparr>model = None, TARGET_MODEL_NAME = []\<rparr>"

text \<open>
  Lines 40-84. \<open>TARGET_MODEL_NAME\<close> is assigned before the handle is built, so an
  exception of \<open>GenerativeModel\<close> leaves the name set and the handle unset.
\<close>

text \<open>Line 40: \<open>os.getenv("GOOGLE_API_KEY") or os.getenv("GEMINI_API_KEY")\<close>.\<close>

definition api_key :: "boot_env \<Rightarrow> string option" where
  "api_key b =
     (case getenv_GOOGLE_API_KEY b of
        None \<Rightarrow> getenv_GEMINI_API_KEY b
      | Some k \<Rightarrow> if k = [] then getenv_GEMINI_API_KEY b else Some k)"

definition bootstrap :: "boot_env \<Rightarrow> config" where
  "bootstrap b =
     (case api_key b of
        None \<Rightarrow> unset_config
      | Some k \<Rightarrow>
          if k = [] then unset_config
          else (case configure b k of
                  Some e \<Rightarrow> unset_config
                | None \<Rightarrow>
                    (case list_models b of
                       Inl e \<Rightarrow> unset_config
                     | Inr available_models \<Rightarrow>
                         (let target_model = select_model available_models
                          in case GenerativeModel b target_model of
                               Some e \<Rightarrow> \<lparr>model = None, TARGET_MODEL_NAME = target_model\<rparr>
                             | None \<Rightarrow> \<lparr>model = Some target_model,
                                         TARGET_MODEL_NAME = target_model\<rparr>))))"

text \<open>
  The selection as the specification words it: the first candidate of the priority
  list that is available; else the first available model whose name has both
  fragments; else the first available model; else the default identifier.
\<close>

definition spec_select_model :: "string list \<Rightarrow> string" where
  "spec_select_model available_models =
     (case find (\<lambda>p. p \<in> set available_models) priority_models of
        Some p \<Rightarrow> p
      | None \<Rightarrow>
          (case find (\<lambda>m. sublist ''gemma'' m \<and> sublist ''-it'' m) available_models of
             Some m \<Rightarrow> m
           | None \<Rightarrow>
               (case available_models of [] \<Rightarrow> ''models/gemini-1.5-flash'' | m # _ \<Rightarrow> m)))"

section \<open>History\<close>

definition history_of :: "conversations \<Rightarrow> string \<Rightarrow> message list" where
  "history_of conversations sid = (case conversations sid of None \<Rightarrow> [] | Some h \<Rightarrow> h)"

text \<open>\<open>manage_history\<close> (lines 138-146); \<open>h[-20:]\<close> on a list longer than 20.\<close>

definition manage_history :: "string \<Rightarrow> message \<Rightarrow> conversations \<Rightarrow> conversations" where
  "manage_history sid new_message conversations =
     (let h = history_of conversations sid @ [new_message]
      in conversations(sid \<mapsto> (if 20 < length h then drop (length h - 20) h else h)))"

section \<open>The chat endpoint\<close>

definition system_prompt_of :: "string \<Rightarrow> string" where
  "system_prompt_of m = (if m = ''interview'' then INTERVIEW_PROMPT else CHAT_PROMPT)"

definition py_str :: "env \<Rightarrow> json \<Rightarrow> string" where
  "py_str e v = (case v of JString s \<Rightarrow> s | _ \<Rightarrow> str_value e v)"

definition context_str :: "env \<Rightarrow> message list \<Rightarrow> string" where
  "context_str e h = py_join ''\<newline>'' (map (\<lambda>msg. py_upper (role msg) @ '': '' @ py_str e (part msg)) h)"

definition full_prompt :: "env \<Rightarrow> string \<Rightarrow> message list \<Rightarrow> string" where
  "full_prompt e m h =
     system_prompt_of m @ ''\<newline>\<newline>Conversation History:\<newline>'' @ context_str e h @
     ''\<newline>\<newline>Respond ONLY in valid JSON format.''"

definition gen_config_of :: "string \<Rightarrow> gen_config" where
  "gen_config_of name =
     (if py_in ''gemini'' (py_lower name) then [(''response_mime_type'', ''application/json'')]
      else [])"

definition fence_json :: string where
  "fence_json = ''```json''"

definition fence :: string where
  "fence = ''```''"

text \<open>Lines 177-183: the text handed to \<open>json.loads\<close>.\<close>

definition extract_json_text :: "string \<Rightarrow> string" where
  "extract_json_text raw =
     (let text = py_strip raw
      in if py_in fence_json text
         then py_strip (hd (py_split fence (last (py_split fence_json text))))
         else if py_in fence text
         then py_strip (hd (py_split fence (last (py_split fence text))))
         else text)"

text \<open>\<open>type(v).__name__\<close>, for the \<open>AttributeError\<close> of \<open>data.get\<close> on a non-dict.\<close>

fun type_name :: "json \<Rightarrow> string" where
  "type_name JNull = ''NoneType''"
| "type_name (JBool b) = ''bool''"
| "type_name (JInt i) = ''int''"
| "type_name (JFloat f) = ''float''"
| "type_name (JString s) = ''str''"
| "type_name (JArray xs) = ''list''"
| "type_name (JObject kvs) = ''dict''"

definition attribute_error :: "json \<Rightarrow> string" where
  \<open>attribute_error data =
     [CHR 0x27] @ type_name data @ ''\' object has no attribute \'get'' @ [CHR 0x27]\<close>

definition dict_get :: "(string \<times> json) list \<Rightarrow> string \<Rightarrow> json \<Rightarrow> json" where
  "dict_get kvs k d = (case map_of kvs k of None \<Rightarrow> d | Some v \<Rightarrow> v)"

definition default_reply :: string where
  \<open>default_reply = ''I\'m sorry, I didn\'t catch that.''\<close>

text \<open>
  The body of the \<open>try\<close> (lines 162-187) on handle \<open>m\<close> and the session's history
  \<open>h\<close>: \<open>Inl e\<close> when an exception with \<open>str(e) = e\<close> reaches the \<open>except\<close>, else
  the two values read from the decoded object.
\<close>

definition try_block :: "env \<Rightarrow> config \<Rightarrow> string \<Rightarrow> message list \<Rightarrow> string \<Rightarrow> string + json \<times> json" where
  \<open>try_block e cfg m h md =
     (case generate_content e m (full_prompt e md h) (gen_config_of (TARGET_MODEL_NAME cfg)) of
        Inl err \<Rightarrow> Inl err
      | Inr raw \<Rightarrow>
          (case json_loads e (extract_json_text raw) of
             Inl err \<Rightarrow> Inl err
           | Inr data \<Rightarrow>
               (case data of
                  JObject kvs \<Rightarrow>
                    Inr (dict_get kvs ''ai_reply'' (JString default_reply),
                         dict_get kvs ''grammar_correction'' JNull)
                | _ \<Rightarrow> Inl (attribute_error data))))\<close>

definition error_reply :: "string \<Rightarrow> string" where
  \<open>error_reply err =
     ''I\'m having trouble connecting to my brain right now. Error details: '' @ err\<close>

definition mock_reply :: "string \<Rightarrow> string \<Rightarrow> string" where
  \<open>mock_reply md user_text =
     ''['' @ py_upper md @ '' MODE] I heard you say: '' @ [CHR 0x27] @ user_text @ [CHR 0x27] @ ''. (MockAI Mode)''\<close>

text \<open>Lines 157-196: the values of \<open>ai_reply\<close> and \<open>grammar_correction\<close>.\<close>

definition generate_reply :: "env \<Rightarrow> config \<Rightarrow> message list \<Rightarrow> string \<Rightarrow> string \<Rightarrow> json \<times> json" where
  "generate_reply e cfg h md user_text =
     (case model cfg of
        Some m \<Rightarrow>
          (case try_block e cfg m h md of
             Inr r \<Rightarrow> r
           | Inl err \<Rightarrow> (JString (error_reply err), JNull))
      | None \<Rightarrow>
          (JString (mock_reply md user_text),
           if md = ''interview'' then JString ''Mock feedback: Good effort!'' else JNull))"

text \<open>
  The constructor \<open>ChatResponse(...)\<close>: \<open>ai_reply: str\<close> accepts a \<open>str\<close>,
  \<open>grammar_correction: Optional[str]\<close> a \<open>str\<close> or \<open>None\<close>; any other value is a
  validation error, which nothing catches (HTTP 500).
\<close>

definition ChatResponse :: "json \<Rightarrow> json \<Rightarrow> string \<Rightarrow> http_error + chat_response" where
  "ChatResponse a g sid =
     (case a of
        JString s \<Rightarrow>
          (case g of
             JNull \<Rightarrow> Inr \<lparr>ai_reply = s, grammar_correction = None, session_id_out = sid\<rparr>
           | JString c \<Rightarrow> Inr \<lparr>ai_reply = s, grammar_correction = Some c, session_id_out = sid\<rparr>
           | _ \<Rightarrow> Inl ResponseValidationError)
      | _ \<Rightarrow> Inl ResponseValidationError)"

definition user_turn :: "chat_request \<Rightarrow> message" where
  "user_turn request = \<lparr>role = ''user'', part = JString (user_message request)\<rparr>"

text \<open>
  \<open>chat_endpoint\<close> (lines 148-205): the conversations after the request, and the
  response or the error of building it.
\<close>

definition chat_endpoint ::
  "env \<Rightarrow> config \<Rightarrow> conversations \<Rightarrow> chat_request \<Rightarrow> conversations \<times> (http_error + chat_response)" where
  "chat_endpoint e cfg conversations request =
     (let sid = py_or (session_id request) (uuid4 e);
          user_text = user_message request;
          md = py_or (mode request) ''chat'';
          convs1 = manage_history sid \<lparr>role = ''user'', part = JString user_text\<rparr> conversations;
          (a, g) = generate_reply e cfg (history_of convs1 sid) md user_text;
          convs2 = manage_history sid \<lparr>role = ''model'', part = a\<rparr> convs1
      in (convs2, ChatResponse a g sid))"

text \<open>A sequence of requests, each with what it obtains from outside.\<close>

fun run ::
  "config \<Rightarrow> conversations \<Rightarrow> (env \<times> chat_request) list
   \<Rightarrow> conversations \<times> (http_error + chat_response) list" where
  "run cfg conversations [] = (conversations, [])"
| "run cfg conversations ((e, request) # rest) =
     (let (convs1, r) = chat_endpoint e cfg conversations request;
          (convs2, rs) = run cfg convs1 rest
      in (convs2, r # rs))"

section \<open>Notions used to state the properties\<close>

text \<open>The \<open>n\<close> most recent entries of a list, in their order.\<close>

definition most_recent :: "nat \<Rightarrow> 'a list \<Rightarrow> 'a list" where
  "most_recent n xs = drop (length xs - n) xs"

text \<open>The session key of a request (line 150) and its mode (line 152).\<close>

definition session_key :: "env \<Rightarrow> chat_request \<Rightarrow> string" where
  "session_key e request = py_or (session_id request) (uuid4 e)"

definition request_mode :: "chat_request \<Rightarrow> string" where
  "request_mode request = py_or (mode request) ''chat''"

text \<open>\<open>conversations[session_id]\<close> when the \<open>try\<close> block of a request reads it.\<close>

definition request_history :: "env \<Rightarrow> conversations \<Rightarrow> chat_request \<Rightarrow> message list" where
  "request_history e c request =
     history_of (manage_history (session_key e request) (user_turn request) c) (session_key e request)"

text \<open>The outcome of line 173 for a request, on handle \<open>m\<close>.\<close>

definition provider_call :: "env \<Rightarrow> config \<Rightarrow> conversations \<Rightarrow> chat_request \<Rightarrow> string \<Rightarrow> string + string" where
  "provider_call e cfg c request m =
     generate_content e m (full_prompt e (request_mode request) (request_history e c request))
       (gen_config_of (TARGET_MODEL_NAME cfg))"

text \<open>The model turn a request records: the value of \<open>ai_reply\<close> at line 199.\<close>

definition model_turn :: "env \<Rightarrow> config \<Rightarrow> conversations \<Rightarrow> chat_request \<Rightarrow> message" where
  "model_turn e cfg c request =
     \<lparr>role = ''model'',
      part = fst (generate_reply e cfg (request_history e c request) (request_mode request)
                    (user_message request))\<rparr>"

text \<open>
  Every turn that a sequence of requests appends to session \<open>sid\<close>, oldest first,
  with nothing dropped.
\<close>

fun turns_log :: "config \<Rightarrow> conversations \<Rightarrow> (env \<times> chat_request) list \<Rightarrow> string \<Rightarrow> message list" where
  "turns_log cfg c [] sid = []"
| "turns_log cfg c ((e, request) # rest) sid =
     (if session_key e request = sid then [user_turn request, model_turn e cfg c request] else [])
     @ turns_log cfg (fst (chat_endpoint e cfg c request)) rest sid"

text \<open>The response of mock mode to a request.\<close>

definition mock_response :: "env \<Rightarrow> chat_request \<Rightarrow> chat_response" where
  "mock_response e request =
     \<lparr>ai_reply = mock_reply (request_mode request) (user_message request),
      grammar_correction =
        (if request_mode request = ''interview'' then Some ''Mock feedback: Good effort!'' else None),
      session_id_out = session_key e request\<rparr>"

text \<open>
  Environments for concrete runs: a provider that answers every call with \<open>reply\<close>,
  and a \<open>json.loads\<close> given by its results on the texts listed in \<open>decoded\<close>.
\<close>

definition canned_env :: "string + string \<Rightarrow> (string \<times> (string + json)) list \<Rightarrow> string \<Rightarrow> env" where
  "canned_env reply decoded uuid =
     \<lparr>generate_content = (\<lambda>m prompt gc. reply),
      json_loads = (\<lambda>text. case map_of decoded text of None \<Rightarrow> Inl [] | Some r \<Rightarrow> r),
      str_value = (\<lambda>v. []),
      uuid4 = uuid\<rparr>"

text \<open>A provider state as the bootstrap leaves it when \<open>models/gemma-3-27b-it\<close> is selected.\<close>

definition gemma_config :: config where
  "gemma_config = \<lparr>model = Some ''models/gemma-3-27b-it'',
                    TARGET_MODEL_NAME = ''models/gemma-3-27b-it''\<rparr>"

text \<open>Eleven requests to one session, and a bootstrap environment with a credential.\<close>

definition eleven_requests :: "(env \<times> chat_request) list" where
  "eleven_requests =
     map (\<lambda>u. (canned_env (Inl ''unused'') [] ''123e4567-e89b-42d3-a456-426614174000'',
               \<lparr>user_message = u, mode = Some ''chat'', session_id = Some ''s1''\<rparr>))
       [''a'', ''b'', ''c'', ''d'', ''e'', ''f'', ''g'', ''h'', ''i'', ''j'', ''k'']"

definition demo_boot :: "string + string list \<Rightarrow> boot_env" where
  "demo_boot listing =
     \<lparr>getenv_GOOGLE_API_KEY = None, getenv_GEMINI_API_KEY = Some ''key'',
      configure = (\<lambda>k. None), list_models = listing, GenerativeModel = (\<lambda>name. None)\<rparr>"

text \<open>
  A provider state with a model of the gemini family, and an environment whose provider
  answers according to whether the call carries the JSON hint.
\<close>

definition gemini_config :: config where
  "gemini_config = \<lparr>model = Some ''models/gemini-2.0-flash'',
                     TARGET_MODEL_NAME = ''models/gemini-2.0-flash''\<rparr>"

definition hint_probe_env :: env where
  \<open>hint_probe_env =
     \<lparr>generate_content =
        (\<lambda>m prompt gc.
           if map_of gc ''response_mime_type'' = Some ''application/json''
           then Inr ''{"ai_reply":"hint"}'' else Inr ''{"ai_reply":"no hint"}''),
      json_loads =
        (\<lambda>text. case map_of
             [(''{"ai_reply":"hint"}'', Inr (JObject [(''ai_reply'', JString ''hint'')])),
              (''{"ai_reply":"no hint"}'', Inr (JObject [(''ai_reply'', JString ''no hint'')]))]
             text of None \<Rightarrow> Inl [] | Some r \<Rightarrow> r),
      str_value = (\<lambda>v. []),
      uuid4 = ''123e4567-e89b-42d3-a456-426614174000''\<rparr>\<close>

text \<open>Decimal numerals, and the value a numeral denotes.\<close>

definition digit_char :: "nat \<Rightarrow> char" where
  "digit_char d = ''0123456789'' ! d"

fun dec :: "nat \<Rightarrow> string" where
  "dec n = (if n < 10 then [digit_char n] else dec (n div 10) @ [digit_char (n mod 10)])"

declare dec.simps [simp del]

definition undec :: "string \<Rightarrow> nat" where
  "undec s = foldl (\<lambda>a c. 10 * a + (of_char c - 48)) 0 s"

text \<open>
  Modelled from the spec: \<open>uuid.uuid4\<close>, the generator behind line 150, is library code
  outside the repository. The specification calls what it yields a fresh unique
  identifier; accordingly the \<open>n\<close>-th identifier that the process generates is
  \<open>generated_id n\<close>, and no two of them are equal. (The identifiers of the library are
  random 36-character strings; only their being pairwise different is modelled.)
\<close>

definition generated_id :: "nat \<Rightarrow> string" where
  "generated_id n = ''uuid-'' @ dec n"

text \<open>
  A request without a usable \<open>session_id\<close> (absent, null or empty): the only requests for
  which line 150 calls the generator.
\<close>

definition omits_session_id :: "chat_request \<Rightarrow> bool" where
  "omits_session_id request = (session_id request = None \<or> session_id request = Some [])"

text \<open>
  The process serving a sequence of requests, \<open>n\<close> identifiers having been generated
  before: the identifier a request draws is the next one of the generator.
\<close>

fun serve ::
  "config \<Rightarrow> conversations \<Rightarrow> nat \<Rightarrow> (env \<times> chat_request) list
   \<Rightarrow> (conversations \<times> nat) \<times> (http_error + chat_response) list" where
  "serve cfg conversations n [] = ((conversations, n), [])"
| "serve cfg conversations n ((e, request) # rest) =
     (let (convs1, r) = chat_endpoint (e\<lparr>uuid4 := generated_id n\<rparr>) cfg conversations request;
          n1 = (if omits_session_id request then Suc n else n);
          (s, rs) = serve cfg convs1 n1 rest
      in (s, r # rs))"

text \<open>How many identifiers the requests before the \<open>i\<close>-th have drawn.\<close>

definition draws_before :: "(env \<times> chat_request) list \<Rightarrow> nat \<Rightarrow> nat" where
  "draws_before reqs i = length (filter (\<lambda>(e, request). omits_session_id request) (take i reqs))"

text \<open>Two requests that send no \<open>session_id\<close>.\<close>

definition two_new_sessions :: "(env \<times> chat_request) list" where
  "two_new_sessions =
     [(canned_env (Inl ''unused'') [] [],
       \<lparr>user_message = ''Hello'', mode = Some ''chat'', session_id = None\<rparr>),
      (canned_env (Inl ''unused'') [] [],
       \<lparr>user_message = ''Hello'', mode = Some ''chat'', session_id = None\<rparr>)]"

section \<open>Basic facts\<close>

lemma py_in_sublist: "py_in sub s \<longleftrightarrow> sublist sub s"
  by (induction s) (auto simp: sublist_Cons_right)

lemma py_or_None: "py_or None d = d"
  by (simp add: py_or_def)

lemma py_or_Some: "s \<noteq> [] \<Longrightarrow> py_or (Some s) d = s"
  by (simp add: py_or_def)

lemma py_or_empty: "py_or (Some []) d = d"
  by (simp add: py_or_def)

lemma manage_history_most_recent:
  "manage_history sid m c = c(sid \<mapsto> most_recent 20 (history_of c sid @ [m]))"
  by (simp add: manage_history_def most_recent_def Let_def)

lemma history_of_upd: "history_of (c(sid \<mapsto> h)) k = (if k = sid then h else history_of c k)"
  by (simp add: history_of_def)

lemma chat_endpoint_snd:
  "snd (chat_endpoint e cfg c request) =
     (case generate_reply e cfg (request_history e c request) (request_mode request)
             (user_message request)
      of (a, g) \<Rightarrow> ChatResponse a g (session_key e request))"
  by (simp add: chat_endpoint_def Let_def user_turn_def request_history_def request_mode_def
      session_key_def split: prod.splits)

lemma chat_endpoint_fst:
  "fst (chat_endpoint e cfg c request) =
     manage_history (session_key e request) (model_turn e cfg c request)
       (manage_history (session_key e request) (user_turn request) c)"
  by (simp add: chat_endpoint_def Let_def user_turn_def request_history_def request_mode_def
      session_key_def model_turn_def split: prod.splits)

lemma generate_reply_mock:
  "model cfg = None \<Longrightarrow>
   generate_reply e cfg h md u =
     (JString (mock_reply md u),
      if md = ''interview'' then JString ''Mock feedback: Good effort!'' else JNull)"
  by (simp add: generate_reply_def)

lemma chat_endpoint_mock:
  "model cfg = None \<Longrightarrow> snd (chat_endpoint e cfg c request) = Inr (mock_response e request)"
  by (simp add: chat_endpoint_snd generate_reply_mock ChatResponse_def mock_response_def)

lemma mock_reply_contains_mode: "sublist (py_upper md) (mock_reply md u)"
  unfolding mock_reply_def by (rule sublist_appendI)

lemma mock_reply_contains_message: "sublist u (mock_reply md u)"
proof -
  have "mock_reply md u =
          (''['' @ py_upper md @ '' MODE] I heard you say: '' @ [CHR 0x27]) @ u @
          ([CHR 0x27] @ ''. (MockAI Mode)'')"
    by (simp add: mock_reply_def)
  then show ?thesis
    by (metis sublist_appendI)
qed

lemmas eval_strings =
  py_upper_def upper_char_def py_lower_def lower_char_def ascii_lowercase_def ascii_uppercase_def
  py_strip_def is_space_def py_split_def fence_def fence_json_def py_or_def

section \<open>Mock mode\<close>

text \<open>
  C4: when the provider handle is unset, every request is answered (no error) with the
  placeholder reply, which contains the upper-cased mode name and the user's message;
  \<open>grammar_correction\<close> is null in mode \<open>chat\<close> and non-null in mode \<open>interview\<close>.
  The reply depends on the mode and the message only.
\<close>

theorem mock_mode_placeholder:
  assumes "model cfg = None"
  shows "snd (chat_endpoint e cfg c request) = Inr (mock_response e request)
       \<and> ai_reply (mock_response e request) = mock_reply (request_mode request) (user_message request)
       \<and> sublist (py_upper (request_mode request)) (ai_reply (mock_response e request))
       \<and> sublist (user_message request) (ai_reply (mock_response e request))
       \<and> (request_mode request = ''chat'' \<longrightarrow> grammar_correction (mock_response e request) = None)
       \<and> (request_mode request = ''interview'' \<longrightarrow>
            grammar_correction (mock_response e request) \<noteq> None)"
  using assms
  by (simp add: chat_endpoint_mock mock_response_def mock_reply_contains_mode
      mock_reply_contains_message)

theorem mock_mode_placeholder_witness:
  "model unset_config = None
   \<and> snd (chat_endpoint (canned_env (Inl ''unused'') [] ''123e4567-e89b-42d3-a456-426614174000'')
           unset_config Map.empty
           \<lparr>user_message = ''Hello'', mode = Some ''interview'', session_id = Some ''s1''\<rparr>)
     = Inr \<lparr>ai_reply = ''[INTERVIEW MODE] I heard you say: '' @ [CHR 0x27] @ ''Hello'' @ [CHR 0x27] @ ''. (MockAI Mode)'',
            grammar_correction = Some ''Mock feedback: Good effort!'',
            session_id_out = ''s1''\<rparr>"
  using mock_mode_placeholder [of unset_config
      "canned_env (Inl ''unused'') [] ''123e4567-e89b-42d3-a456-426614174000''" Map.empty
      "\<lparr>user_message = ''Hello'', mode = Some ''interview'', session_id = Some ''s1''\<rparr>"]
  by (simp add: unset_config_def mock_response_def request_mode_def session_key_def mock_reply_def
      eval_strings)

section \<open>Mode values\<close>

lemma request_mode_not_interview:
  "m \<noteq> ''interview'' \<Longrightarrow> py_or (Some m) ''chat'' \<noteq> ''interview''"
  by (simp add: py_or_def)

lemma generate_reply_chat_like:
  assumes "md \<noteq> ''interview''" "model cfg = Some h"
  shows "generate_reply e cfg hist md u = generate_reply e cfg hist ''chat'' u"
  using assms
  by (simp add: generate_reply_def try_block_def full_prompt_def system_prompt_of_def)

text \<open>
  C10: the mode is not validated. A request with any mode string other than
  \<open>interview\<close> selects the chat template and, with a provider, is handled exactly as
  mode \<open>chat\<close>; in mock mode the reply embeds the upper-cased mode string (for a
  non-empty one the reply is the placeholder built from it) and \<open>grammar_correction\<close>
  is null. A null mode is handled as \<open>chat\<close>.
\<close>

theorem mode_not_validated:
  assumes "m \<noteq> ''interview''"
  shows "system_prompt_of (request_mode (request\<lparr>mode := Some m\<rparr>)) = CHAT_PROMPT
       \<and> prefix CHAT_PROMPT (full_prompt e (request_mode (request\<lparr>mode := Some m\<rparr>)) h)
       \<and> (model cfg \<noteq> None \<longrightarrow>
            chat_endpoint e cfg c (request\<lparr>mode := Some m\<rparr>)
            = chat_endpoint e cfg c (request\<lparr>mode := Some ''chat''\<rparr>))
       \<and> (model cfg = None \<longrightarrow>
            snd (chat_endpoint e cfg c (request\<lparr>mode := Some m\<rparr>))
              = Inr (mock_response e (request\<lparr>mode := Some m\<rparr>))
            \<and> sublist (py_upper m) (ai_reply (mock_response e (request\<lparr>mode := Some m\<rparr>)))
            \<and> (m \<noteq> [] \<longrightarrow> ai_reply (mock_response e (request\<lparr>mode := Some m\<rparr>))
                             = mock_reply m (user_message request))
            \<and> grammar_correction (mock_response e (request\<lparr>mode := Some m\<rparr>)) = None)
       \<and> request_mode (request\<lparr>mode := None\<rparr>) = ''chat''
       \<and> chat_endpoint e cfg c (request\<lparr>mode := None\<rparr>)
         = chat_endpoint e cfg c (request\<lparr>mode := Some ''chat''\<rparr>)"
proof -
  let ?rq = "request\<lparr>mode := Some m\<rparr>"
  have ni: "request_mode ?rq \<noteq> ''interview''"
    using assms by (simp add: request_mode_def py_or_def)
  have p1: "system_prompt_of (request_mode ?rq) = CHAT_PROMPT"
    using ni by (simp add: system_prompt_of_def)
  have p2: "prefix CHAT_PROMPT (full_prompt e (request_mode ?rq) h)"
    using p1 by (simp add: full_prompt_def)
  have p3: "chat_endpoint e cfg c ?rq = chat_endpoint e cfg c (request\<lparr>mode := Some ''chat''\<rparr>)"
    if "model cfg \<noteq> None"
  proof -
    from that obtain hd where hd: "model cfg = Some hd" by auto
    have "generate_reply e cfg hist (py_or (Some m) ''chat'') u
          = generate_reply e cfg hist (py_or (Some ''chat'') ''chat'') u" for hist u
      using generate_reply_chat_like [OF request_mode_not_interview [OF assms] hd]
      by (simp add: py_or_def)
    then show ?thesis
      by (simp add: chat_endpoint_def)
  qed
  have p4a: "sublist (py_upper m) (ai_reply (mock_response e ?rq))"
  proof (cases "m = []")
    case True
    then show ?thesis by (simp add: py_upper_def)
  next
    case False
    then have "request_mode ?rq = m"
      by (simp add: request_mode_def py_or_def)
    then show ?thesis
      by (simp add: mock_response_def mock_reply_contains_mode)
  qed
  have p4b: "ai_reply (mock_response e ?rq) = mock_reply m (user_message request)" if "m \<noteq> []"
    using that by (simp add: mock_response_def request_mode_def py_or_def)
  have p4c: "grammar_correction (mock_response e ?rq) = None"
    using ni by (simp add: mock_response_def)
  have p5: "request_mode (request\<lparr>mode := None\<rparr>) = ''chat''"
    by (simp add: request_mode_def py_or_def)
  have p6: "chat_endpoint e cfg c (request\<lparr>mode := None\<rparr>)
         = chat_endpoint e cfg c (request\<lparr>mode := Some ''chat''\<rparr>)"
    by (simp add: chat_endpoint_def py_or_def)
  show ?thesis
    using p1 p2 p3 p4a p4b p4c p5 p6 chat_endpoint_mock [of cfg e c ?rq] by blast
qed

theorem mode_not_validated_witness:
  "''quiz'' \<noteq> ''interview''
   \<and> snd (chat_endpoint (canned_env (Inl ''unused'') [] ''123e4567-e89b-42d3-a456-426614174000'')
           unset_config Map.empty
           \<lparr>user_message = ''Hello'', mode = Some ''quiz'', session_id = Some ''s1''\<rparr>)
     = Inr \<lparr>ai_reply = ''[QUIZ MODE] I heard you say: '' @ [CHR 0x27] @ ''Hello'' @ [CHR 0x27] @ ''. (MockAI Mode)'',
            grammar_correction = None,
            session_id_out = ''s1''\<rparr>"
  using mode_not_validated [of "''quiz''"
      "\<lparr>user_message = ''Hello'', mode = Some ''chat'', session_id = Some ''s1''\<rparr>"
      "canned_env (Inl ''unused'') [] ''123e4567-e89b-42d3-a456-426614174000''" "[]"
      unset_config Map.empty]
  by (simp add: unset_config_def mock_response_def request_mode_def session_key_def mock_reply_def
      eval_strings)

section \<open>The provider call\<close>

lemma try_block_provider_call:
  "try_block e cfg m (request_history e c request) (request_mode request) =
     (case provider_call e cfg c request m of
        Inl err \<Rightarrow> Inl err
      | Inr raw \<Rightarrow>
          (case json_loads e (extract_json_text raw) of
             Inl err \<Rightarrow> Inl err
           | Inr data \<Rightarrow>
               (case data of
                  JObject kvs \<Rightarrow>
                    Inr (dict_get kvs ''ai_reply'' (JString default_reply),
                         dict_get kvs ''grammar_correction'' JNull)
                | _ \<Rightarrow> Inl (attribute_error data))))"
  by (simp add: try_block_def provider_call_def)

lemma generate_reply_error:
  assumes "model cfg = Some m"
    and "try_block e cfg m h md = Inl err"
  shows "generate_reply e cfg h md u = (JString (error_reply err), JNull)"
  using assms by (simp add: generate_reply_def)

lemma generate_reply_ok:
  assumes "model cfg = Some m"
    and "try_block e cfg m h md = Inr r"
  shows "generate_reply e cfg h md u = r"
  using assms by (simp add: generate_reply_def)

lemma chat_endpoint_error:
  assumes "model cfg = Some m"
    and "try_block e cfg m (request_history e c request) (request_mode request) = Inl err"
  shows "snd (chat_endpoint e cfg c request) =
           Inr \<lparr>ai_reply = error_reply err, grammar_correction = None,
                session_id_out = session_key e request\<rparr>"
    and "model_turn e cfg c request = \<lparr>role = ''model'', part = JString (error_reply err)\<rparr>"
  using assms
  by (simp_all add: chat_endpoint_snd model_turn_def generate_reply_error ChatResponse_def)

lemma chat_endpoint_object:
  assumes "model cfg = Some m"
    and "provider_call e cfg c request m = Inr raw"
    and "json_loads e (extract_json_text raw) = Inr (JObject kvs)"
  shows "snd (chat_endpoint e cfg c request) =
           ChatResponse (dict_get kvs ''ai_reply'' (JString default_reply))
             (dict_get kvs ''grammar_correction'' JNull) (session_key e request)"
  using assms
  by (simp add: chat_endpoint_snd generate_reply_def try_block_provider_call)

section \<open>History after a request\<close>

lemma most_recent_append:
  "most_recent n (most_recent n xs @ ys) = most_recent n (xs @ ys)"
  by (cases "length xs \<le> n") (simp_all add: most_recent_def add.commute)

lemma length_most_recent: "length (most_recent n xs) = min n (length xs)"
  by (simp add: most_recent_def)

lemma most_recent_all: "length xs \<le> n \<Longrightarrow> most_recent n xs = xs"
  by (simp add: most_recent_def)

lemma most_recent_suffix: "suffix (most_recent n xs) xs"
  by (simp add: most_recent_def suffix_drop)

lemma most_recent_keeps_tail:
  "length ys \<le> n \<Longrightarrow> most_recent n (xs @ ys) = most_recent (n - length ys) xs @ ys"
  by (simp add: most_recent_def)

lemma chat_endpoint_history:
  "fst (chat_endpoint e cfg c request) =
     c(session_key e request \<mapsto>
         most_recent 20 (history_of c (session_key e request)
                          @ [user_turn request, model_turn e cfg c request]))"
proof -
  have "most_recent 20 (most_recent 20 (h @ [u]) @ [m]) = most_recent 20 (h @ [u, m])"
    for h :: "message list" and u m
    using most_recent_append [of 20 "h @ [u]" "[m]"] by simp
  then show ?thesis
    by (simp add: chat_endpoint_fst manage_history_most_recent history_of_upd)
qed

lemma chat_endpoint_success_turn:
  assumes "snd (chat_endpoint e cfg c request) = Inr r"
  shows "model_turn e cfg c request = \<lparr>role = ''model'', part = JString (ai_reply r)\<rparr>"
  using assms
  by (auto simp: chat_endpoint_snd model_turn_def ChatResponse_def
      split: prod.splits json.splits)


section \<open>Errors of the provider call\<close>

lemma last_most_recent:
  "0 < n \<Longrightarrow> most_recent n (xs @ [x]) \<noteq> [] \<and> last (most_recent n (xs @ [x])) = x"
  by (simp add: most_recent_keeps_tail)

text \<open>
  C3: when the provider call raises, or the text it returns does not decode as JSON, the
  request is still answered (no error): \<open>ai_reply\<close> is a non-empty string that contains
  the exception's text, \<open>grammar_correction\<close> is null, and the session's history ends
  with a model turn holding that same reply.
\<close>

theorem provider_failure_reported:
  assumes "model cfg = Some m"
    and "provider_call e cfg c request m = Inl err
         \<or> (\<exists>raw. provider_call e cfg c request m = Inr raw
                  \<and> json_loads e (extract_json_text raw) = Inl err)"
  shows "snd (chat_endpoint e cfg c request) =
           Inr \<lparr>ai_reply = error_reply err, grammar_correction = None,
                session_id_out = session_key e request\<rparr>
       \<and> error_reply err \<noteq> []
       \<and> sublist err (error_reply err)
       \<and> history_of (fst (chat_endpoint e cfg c request)) (session_key e request) \<noteq> []
       \<and> last (history_of (fst (chat_endpoint e cfg c request)) (session_key e request))
         = \<lparr>role = ''model'', part = JString (error_reply err)\<rparr>"
proof -
  have tb: "try_block e cfg m (request_history e c request) (request_mode request) = Inl err"
    using assms(2) by (auto simp: try_block_provider_call)
  note ce = chat_endpoint_error [OF assms(1) tb]
  let ?mt = "\<lparr>role = ''model'', part = JString (error_reply err)\<rparr>"
  let ?h = "history_of (fst (chat_endpoint e cfg c request)) (session_key e request)"
  have h: "?h = most_recent 20 ((history_of c (session_key e request) @ [user_turn request]) @ [?mt])"
    by (simp add: chat_endpoint_history history_of_upd ce(2))
  have l: "?h \<noteq> [] \<and> last ?h = ?mt"
    unfolding h by (rule last_most_recent) simp
  have "sublist err (error_reply err)"
    unfolding error_reply_def by (rule sublist_append_leftI)
  moreover have "error_reply err \<noteq> []"
    by (simp add: error_reply_def)
  ultimately show ?thesis
    using ce(1) l by simp
qed

theorem provider_failure_reported_witness:
  "snd (chat_endpoint (canned_env (Inl ''503 Service Unavailable'') [] ''123e4567-e89b-42d3-a456-426614174000'')
         gemma_config Map.empty
         \<lparr>user_message = ''Hello'', mode = Some ''chat'', session_id = Some ''s1''\<rparr>)
   = Inr \<lparr>ai_reply = error_reply ''503 Service Unavailable'', grammar_correction = None,
          session_id_out = ''s1''\<rparr>"
  using provider_failure_reported [of gemma_config "''models/gemma-3-27b-it''"
      "canned_env (Inl ''503 Service Unavailable'') [] ''123e4567-e89b-42d3-a456-426614174000''"
      Map.empty "\<lparr>user_message = ''Hello'', mode = Some ''chat'', session_id = Some ''s1''\<rparr>"
      "''503 Service Unavailable''"]
  by (simp add: gemma_config_def provider_call_def canned_env_def session_key_def py_or_def)

section \<open>Two turns per request\<close>

text \<open>
  C9: every request, whichever branch produces the reply, extends the history of its
  session by a user turn followed by a model turn (the oldest entries beyond 20 being
  dropped), so the new history ends with these two turns, and is the old one followed by
  them when there was room; when the request succeeds, the model turn holds the returned
  \<open>ai_reply\<close>.
\<close>

theorem two_turns_per_request:
  "fst (chat_endpoint e cfg c request) =
     c(session_key e request \<mapsto>
         most_recent 20 (history_of c (session_key e request)
                          @ [user_turn request, model_turn e cfg c request]))
   \<and> role (user_turn request) = ''user'' \<and> part (user_turn request) = JString (user_message request)
   \<and> role (model_turn e cfg c request) = ''model''
   \<and> (\<exists>older. history_of (fst (chat_endpoint e cfg c request)) (session_key e request)
               = older @ [user_turn request, model_turn e cfg c request])
   \<and> (length (history_of c (session_key e request)) \<le> 18 \<longrightarrow>
        history_of (fst (chat_endpoint e cfg c request)) (session_key e request)
        = history_of c (session_key e request) @ [user_turn request, model_turn e cfg c request])
   \<and> (\<forall>r. snd (chat_endpoint e cfg c request) = Inr r \<longrightarrow>
          part (model_turn e cfg c request) = JString (ai_reply r))"
proof -
  let ?k = "session_key e request"
  let ?new = "[user_turn request, model_turn e cfg c request]"
  have h: "history_of (fst (chat_endpoint e cfg c request)) ?k
           = most_recent 20 (history_of c ?k @ ?new)"
    by (simp add: chat_endpoint_history history_of_upd)
  have "most_recent 20 (history_of c ?k @ ?new) = most_recent 18 (history_of c ?k) @ ?new"
    using most_recent_keeps_tail [of ?new 20 "history_of c ?k"] by simp
  with h have ex: "\<exists>older. history_of (fst (chat_endpoint e cfg c request)) ?k = older @ ?new"
    by simp
  have small: "history_of (fst (chat_endpoint e cfg c request)) ?k = history_of c ?k @ ?new"
    if "length (history_of c ?k) \<le> 18"
    using that h by (simp add: most_recent_all)
  have ok: "part (model_turn e cfg c request) = JString (ai_reply r)"
    if "snd (chat_endpoint e cfg c request) = Inr r" for r
    using chat_endpoint_success_turn [OF that] by simp
  show ?thesis
    using chat_endpoint_history [of e cfg c request] ex small ok
    by (simp add: user_turn_def model_turn_def)
qed


theorem two_turns_per_request_witness:
  "fst (chat_endpoint (canned_env (Inl ''unused'') [] ''123e4567-e89b-42d3-a456-426614174000'')
         unset_config Map.empty
         \<lparr>user_message = ''Hello'', mode = Some ''chat'', session_id = Some ''s1''\<rparr>) ''s1''
   = Some [\<lparr>role = ''user'', part = JString ''Hello''\<rparr>,
           \<lparr>role = ''model'', part = JString (mock_reply ''chat'' ''Hello'')\<rparr>]"
  using two_turns_per_request [of
      "canned_env (Inl ''unused'') [] ''123e4567-e89b-42d3-a456-426614174000''" unset_config Map.empty
      "\<lparr>user_message = ''Hello'', mode = Some ''chat'', session_id = Some ''s1''\<rparr>"]
  by (simp add: session_key_def py_or_def history_of_def most_recent_def user_turn_def
      model_turn_def request_mode_def generate_reply_mock unset_config_def)

section \<open>Defaults for absent fields\<close>

lemma ChatResponse_str:
  "ChatResponse (JString a) JNull sid
     = Inr \<lparr>ai_reply = a, grammar_correction = None, session_id_out = sid\<rparr>"
  "ChatResponse (JString a) (JString g) sid
     = Inr \<lparr>ai_reply = a, grammar_correction = Some g, session_id_out = sid\<rparr>"
  by (simp_all add: ChatResponse_def)

text \<open>
  C6 (amended): when the provider's text decodes to a JSON object without the field
  \<open>ai_reply\<close>, and its \<open>grammar_correction\<close> is absent, null or a string, the endpoint
  returns the default reply; when the object has no field \<open>grammar_correction\<close>, and its
  \<open>ai_reply\<close> is absent or a string, the endpoint returns \<open>grammar_correction\<close> null.
\<close>

theorem missing_field_defaults:
  assumes "model cfg = Some m"
    and "provider_call e cfg c request m = Inr raw"
    and "json_loads e (extract_json_text raw) = Inr (JObject kvs)"
  shows "(map_of kvs ''ai_reply'' = None
          \<and> (map_of kvs ''grammar_correction'' = None
             \<or> map_of kvs ''grammar_correction'' = Some JNull
             \<or> (\<exists>s. map_of kvs ''grammar_correction'' = Some (JString s)))
          \<longrightarrow> (\<exists>r. snd (chat_endpoint e cfg c request) = Inr r \<and> ai_reply r = default_reply))
       \<and> (map_of kvs ''grammar_correction'' = None
          \<and> (map_of kvs ''ai_reply'' = None \<or> (\<exists>s. map_of kvs ''ai_reply'' = Some (JString s)))
          \<longrightarrow> (\<exists>r. snd (chat_endpoint e cfg c request) = Inr r \<and> grammar_correction r = None))"
  using chat_endpoint_object [OF assms]
  by (auto simp: dict_get_def ChatResponse_str)

theorem missing_field_defaults_witness:
  \<open>snd (chat_endpoint
          (canned_env (Inr ''{"grammar_correction": "fix x"}'')
             [(''{"grammar_correction": "fix x"}'',
               Inr (JObject [(''grammar_correction'', JString ''fix x'')]))]
             ''123e4567-e89b-42d3-a456-426614174000'')
          gemma_config Map.empty
          \<lparr>user_message = ''Hello'', mode = Some ''chat'', session_id = Some ''s1''\<rparr>)
    = Inr \<lparr>ai_reply = ''I\'m sorry, I didn\'t catch that.'',
           grammar_correction = Some ''fix x'', session_id_out = ''s1''\<rparr>\<close>
  using missing_field_defaults [of gemma_config "''models/gemma-3-27b-it''"
      \<open>canned_env (Inr ''{"grammar_correction": "fix x"}'')
             [(''{"grammar_correction": "fix x"}'',
               Inr (JObject [(''grammar_correction'', JString ''fix x'')]))]
             ''123e4567-e89b-42d3-a456-426614174000''\<close>
      Map.empty "\<lparr>user_message = ''Hello'', mode = Some ''chat'', session_id = Some ''s1''\<rparr>"
      \<open>''{"grammar_correction": "fix x"}''\<close> "[(''grammar_correction'', JString ''fix x'')]"]
  by (simp add: gemma_config_def provider_call_def canned_env_def session_key_def
      extract_json_text_def eval_strings chat_endpoint_snd generate_reply_def try_block_def
      dict_get_def ChatResponse_def default_reply_def)

text \<open>
  The claim as stated, for every text that decodes as JSON, fails: the array \<open>[]\<close> has no
  field \<open>ai_reply\<close>, and the reply is the error text of \<open>data.get\<close>; the object
  \<open>{"grammar_correction": []}\<close> has none either, and the response cannot be built.
\<close>

theorem missing_field_defaults_counterexample:
  \<open>snd (chat_endpoint
          (canned_env (Inr ''[]'') [(''[]'', Inr (JArray []))]
             ''123e4567-e89b-42d3-a456-426614174000'')
          gemma_config Map.empty
          \<lparr>user_message = ''Hello'', mode = Some ''chat'', session_id = Some ''s1''\<rparr>)
    = Inr \<lparr>ai_reply = ''I\'m having trouble connecting to my brain right now. Error details: \'list\' object has no attribute \'get'' @ [CHR 0x27],
           grammar_correction = None, session_id_out = ''s1''\<rparr>
   \<and> snd (chat_endpoint
          (canned_env (Inr ''{"grammar_correction": []}'')
             [(''{"grammar_correction": []}'', Inr (JObject [(''grammar_correction'', JArray [])]))]
             ''123e4567-e89b-42d3-a456-426614174000'')
          gemma_config Map.empty
          \<lparr>user_message = ''Hello'', mode = Some ''chat'', session_id = Some ''s1''\<rparr>)
    = Inl ResponseValidationError\<close>
  by (simp add: gemma_config_def canned_env_def session_key_def
      extract_json_text_def eval_strings chat_endpoint_snd generate_reply_def try_block_def
      dict_get_def ChatResponse_def default_reply_def error_reply_def attribute_error_def)

section \<open>The JSON-response hint\<close>

lemma env_without_provider:
  "full_prompt (e\<lparr>generate_content := g\<rparr>) = full_prompt e"
  "session_key (e\<lparr>generate_content := g\<rparr>) = session_key e"
  "request_history (e\<lparr>generate_content := g\<rparr>) = request_history e"
proof -
  have "py_str (e\<lparr>generate_content := g\<rparr>) = py_str e"
    by (rule ext) (simp add: py_str_def split: json.splits)
  then show "full_prompt (e\<lparr>generate_content := g\<rparr>) = full_prompt e"
    by (intro ext) (simp add: full_prompt_def context_str_def)
  show k: "session_key (e\<lparr>generate_content := g\<rparr>) = session_key e"
    by (rule ext) (simp add: session_key_def)
  show "request_history (e\<lparr>generate_content := g\<rparr>) = request_history e"
    by (intro ext) (simp add: request_history_def k)
qed

lemma chat_endpoint_via_try_block:
  "model cfg = Some m \<Longrightarrow>
   chat_endpoint e cfg c request =
     (case (case try_block e cfg m (request_history e c request) (request_mode request) of
              Inr r \<Rightarrow> r | Inl err \<Rightarrow> (JString (error_reply err), JNull))
      of (a, g) \<Rightarrow>
        (manage_history (session_key e request) \<lparr>role = ''model'', part = a\<rparr>
           (manage_history (session_key e request) (user_turn request) c),
         ChatResponse a g (session_key e request)))"
  by (simp add: chat_endpoint_def generate_reply_def Let_def request_history_def request_mode_def
      session_key_def user_turn_def)

lemma try_block_one_point:
  assumes "g m (full_prompt e md h) (gen_config_of (TARGET_MODEL_NAME cfg))
           = generate_content e m (full_prompt e md h) (gen_config_of (TARGET_MODEL_NAME cfg))"
  shows "try_block (e\<lparr>generate_content := g\<rparr>) cfg m h md = try_block e cfg m h md"
  using assms by (simp add: try_block_def env_without_provider split: sum.splits)

text \<open>
  C7: the generation config holds the hint \<open>response_mime_type = application/json\<close>
  exactly when the selected model name, lower-cased, contains \<open>gemini\<close>, and is empty
  otherwise; and this config is what the handler passes to the provider's generate
  call: the response is made from the provider's outcome on the handle, the prompt and
  this config (its exception is reported, its text is decoded), and it does not depend
  on what the provider would answer to any other call.
\<close>

theorem json_hint_iff_gemini:
  "(map_of (gen_config_of (TARGET_MODEL_NAME cfg)) ''response_mime_type'' = Some ''application/json''
      \<longleftrightarrow> sublist ''gemini'' (py_lower (TARGET_MODEL_NAME cfg)))
   \<and> (sublist ''gemini'' (py_lower (TARGET_MODEL_NAME cfg))
        \<longrightarrow> gen_config_of (TARGET_MODEL_NAME cfg) = [(''response_mime_type'', ''application/json'')])
   \<and> (\<not> sublist ''gemini'' (py_lower (TARGET_MODEL_NAME cfg))
        \<longrightarrow> gen_config_of (TARGET_MODEL_NAME cfg) = [])
   \<and> (model cfg = Some m \<longrightarrow>
        (\<forall>err. generate_content e m
                 (full_prompt e (request_mode request) (request_history e c request))
                 (gen_config_of (TARGET_MODEL_NAME cfg)) = Inl err
              \<longrightarrow> snd (chat_endpoint e cfg c request)
                  = Inr \<lparr>ai_reply = error_reply err, grammar_correction = None,
                         session_id_out = session_key e request\<rparr>)
        \<and> (\<forall>raw kvs. generate_content e m
                 (full_prompt e (request_mode request) (request_history e c request))
                 (gen_config_of (TARGET_MODEL_NAME cfg)) = Inr raw
                \<and> json_loads e (extract_json_text raw) = Inr (JObject kvs)
              \<longrightarrow> snd (chat_endpoint e cfg c request)
                  = ChatResponse (dict_get kvs ''ai_reply'' (JString default_reply))
                      (dict_get kvs ''grammar_correction'' JNull) (session_key e request))
        \<and> (\<forall>g. g m (full_prompt e (request_mode request) (request_history e c request))
                   (gen_config_of (TARGET_MODEL_NAME cfg))
                 = generate_content e m
                     (full_prompt e (request_mode request) (request_history e c request))
                     (gen_config_of (TARGET_MODEL_NAME cfg))
              \<longrightarrow> chat_endpoint (e\<lparr>generate_content := g\<rparr>) cfg c request
                  = chat_endpoint e cfg c request))"
proof -
  let ?P = "full_prompt e (request_mode request) (request_history e c request)"
  let ?G = "gen_config_of (TARGET_MODEL_NAME cfg)"
  have a: "snd (chat_endpoint e cfg c request)
           = Inr \<lparr>ai_reply = error_reply err, grammar_correction = None,
                  session_id_out = session_key e request\<rparr>"
    if "model cfg = Some m" "generate_content e m ?P ?G = Inl err" for err
    using that
    by (simp add: chat_endpoint_via_try_block try_block_def ChatResponse_def)
  have b: "snd (chat_endpoint e cfg c request)
           = ChatResponse (dict_get kvs ''ai_reply'' (JString default_reply))
               (dict_get kvs ''grammar_correction'' JNull) (session_key e request)"
    if "model cfg = Some m" "generate_content e m ?P ?G = Inr raw"
      "json_loads e (extract_json_text raw) = Inr (JObject kvs)" for raw kvs
    using that
    by (simp add: chat_endpoint_via_try_block try_block_def)
  have d: "chat_endpoint (e\<lparr>generate_content := g\<rparr>) cfg c request = chat_endpoint e cfg c request"
    if m: "model cfg = Some m" and g: "g m ?P ?G = generate_content e m ?P ?G" for g
  proof -
    have "try_block (e\<lparr>generate_content := g\<rparr>) cfg m (request_history e c request)
            (request_mode request)
          = try_block e cfg m (request_history e c request) (request_mode request)"
      using g by (rule try_block_one_point)
    then show ?thesis
      by (simp add: chat_endpoint_via_try_block [OF m] env_without_provider)
  qed
  have h: "(map_of ?G ''response_mime_type'' = Some ''application/json''
            \<longleftrightarrow> sublist ''gemini'' (py_lower (TARGET_MODEL_NAME cfg)))
        \<and> (sublist ''gemini'' (py_lower (TARGET_MODEL_NAME cfg))
             \<longrightarrow> ?G = [(''response_mime_type'', ''application/json'')])
        \<and> (\<not> sublist ''gemini'' (py_lower (TARGET_MODEL_NAME cfg)) \<longrightarrow> ?G = [])"
    by (simp add: gen_config_of_def py_in_sublist)
  from a b d h show ?thesis
    by blast
qed


theorem json_hint_iff_gemini_witness:
  "snd (chat_endpoint hint_probe_env gemini_config Map.empty
          \<lparr>user_message = ''Hello'', mode = Some ''chat'', session_id = Some ''s1''\<rparr>)
     = Inr \<lparr>ai_reply = ''hint'', grammar_correction = None, session_id_out = ''s1''\<rparr>
   \<and> snd (chat_endpoint hint_probe_env gemma_config Map.empty
          \<lparr>user_message = ''Hello'', mode = Some ''chat'', session_id = Some ''s1''\<rparr>)
     = Inr \<lparr>ai_reply = ''no hint'', grammar_correction = None, session_id_out = ''s1''\<rparr>"
proof -
  let ?rq = "\<lparr>user_message = ''Hello'', mode = Some ''chat'', session_id = Some ''s1''\<rparr>"
  have m1: "model gemini_config = Some ''models/gemini-2.0-flash''"
    and m2: "model gemma_config = Some ''models/gemma-3-27b-it''"
    by (simp_all add: gemini_config_def gemma_config_def)
  have c1: "gen_config_of (TARGET_MODEL_NAME gemini_config)
            = [(''response_mime_type'', ''application/json'')]"
    and c2: "gen_config_of (TARGET_MODEL_NAME gemma_config) = []"
    by (simp_all add: gemini_config_def gemma_config_def gen_config_of_def eval_strings)
  have g1: \<open>generate_content hint_probe_env ''models/gemini-2.0-flash'' p
              (gen_config_of (TARGET_MODEL_NAME gemini_config)) = Inr ''{"ai_reply":"hint"}''\<close> for p
    unfolding c1 by (simp add: hint_probe_env_def)
  have g2: \<open>generate_content hint_probe_env ''models/gemma-3-27b-it'' p
              (gen_config_of (TARGET_MODEL_NAME gemma_config)) = Inr ''{"ai_reply":"no hint"}''\<close> for p
    unfolding c2 by (simp add: hint_probe_env_def)
  have x1: \<open>extract_json_text ''{"ai_reply":"hint"}'' = ''{"ai_reply":"hint"}''\<close>
    and x2: \<open>extract_json_text ''{"ai_reply":"no hint"}'' = ''{"ai_reply":"no hint"}''\<close>
    by (simp_all add: extract_json_text_def eval_strings)
  have l1: \<open>json_loads hint_probe_env (extract_json_text ''{"ai_reply":"hint"}'')
            = Inr (JObject [(''ai_reply'', JString ''hint'')])\<close>
    and l2: \<open>json_loads hint_probe_env (extract_json_text ''{"ai_reply":"no hint"}'')
            = Inr (JObject [(''ai_reply'', JString ''no hint'')])\<close>
    unfolding x1 x2 by (simp_all add: hint_probe_env_def)
  have k: "session_key hint_probe_env ?rq = ''s1''"
    by (simp add: session_key_def py_or_def)
  note t1 = json_hint_iff_gemini [of gemini_config "''models/gemini-2.0-flash''" hint_probe_env
      ?rq Map.empty, THEN conjunct2, THEN conjunct2, THEN conjunct2, THEN mp, OF m1,
      THEN conjunct2, THEN conjunct1, THEN spec, THEN spec, THEN mp, OF conjI [OF g1 l1]]
  note t2 = json_hint_iff_gemini [of gemma_config "''models/gemma-3-27b-it''" hint_probe_env
      ?rq Map.empty, THEN conjunct2, THEN conjunct2, THEN conjunct2, THEN mp, OF m2,
      THEN conjunct2, THEN conjunct1, THEN spec, THEN spec, THEN mp, OF conjI [OF g2 l2]]
  from t1 t2 show ?thesis
    by (simp add: k dict_get_def ChatResponse_def)
qed

section \<open>Session identifiers\<close>

lemma undec_digit: "d < 10 \<Longrightarrow> (of_char (digit_char d) :: nat) - 48 = d"
  by (auto simp: digit_char_def less_Suc_eq numeral_eq_Suc)

lemma undec_dec: "undec (dec n) = n"
proof (induction n rule: dec.induct)
  case (1 n)
  show ?case
  proof (cases "n < 10")
    case True
    then show ?thesis
      by (subst dec.simps) (simp add: undec_def undec_digit)
  next
    case False
    with 1 have ih: "undec (dec (n div 10)) = n div 10" by simp
    have "undec (dec n) = 10 * undec (dec (n div 10)) + (of_char (digit_char (n mod 10)) - 48)"
      using False by (subst dec.simps) (simp add: undec_def)
    then show ?thesis
      by (simp add: ih undec_digit)
  qed
qed

lemma generated_id_inj: "generated_id a = generated_id b \<Longrightarrow> a = b"
  by (metis generated_id_def same_append_eq undec_dec)

lemma chat_endpoint_session_id_out:
  "snd (chat_endpoint e cfg c request) = Inr r \<Longrightarrow> session_id_out r = session_key e request"
  by (auto simp: chat_endpoint_snd ChatResponse_def split: prod.splits json.splits)

lemma snd_serve_Cons:
  "snd (serve cfg c n ((e, request) # rest)) =
     snd (chat_endpoint (e\<lparr>uuid4 := generated_id n\<rparr>) cfg c request)
     # snd (serve cfg (fst (chat_endpoint (e\<lparr>uuid4 := generated_id n\<rparr>) cfg c request))
              (if omits_session_id request then Suc n else n) rest)"
  by (simp add: Let_def split: prod.splits)

lemma draws_before_0: "draws_before reqs 0 = 0"
  by (simp add: draws_before_def)

lemma draws_before_Cons:
  "draws_before ((e, request) # rest) (Suc i) =
     (if omits_session_id request then 1 else 0) + draws_before rest i"
  by (simp add: draws_before_def)

lemma serve_nth:
  "i < length reqs \<Longrightarrow>
   \<exists>c'. snd (serve cfg c n reqs) ! i
        = snd (chat_endpoint ((fst (reqs ! i))\<lparr>uuid4 := generated_id (n + draws_before reqs i)\<rparr>)
                 cfg c' (snd (reqs ! i)))"
proof (induction reqs arbitrary: c n i)
  case Nil
  then show ?case by simp
next
  case (Cons a reqs)
  obtain e request where a: "a = (e, request)" by (cases a)
  show ?case
  proof (cases i)
    case 0
    then show ?thesis
      by (auto simp: a snd_serve_Cons draws_before_0 simp del: serve.simps)
  next
    case (Suc i')
    with Cons.prems have "i' < length reqs" by simp
    from Cons.IH [OF this, of "fst (chat_endpoint (e\<lparr>uuid4 := generated_id n\<rparr>) cfg c request)"
        "if omits_session_id request then Suc n else n"]
    show ?thesis
      by (auto simp: a Suc snd_serve_Cons draws_before_Cons simp del: serve.simps)
  qed
qed

lemma draws_before_Suc:
  "i < length reqs \<Longrightarrow> omits_session_id (snd (reqs ! i)) \<Longrightarrow>
   draws_before reqs (Suc i) = Suc (draws_before reqs i)"
  by (auto simp: draws_before_def take_Suc_conv_app_nth split: prod.splits)

lemma draws_before_mono: "i \<le> j \<Longrightarrow> draws_before reqs i \<le> draws_before reqs j"
proof -
  assume "i \<le> j"
  then have "take j reqs = take i reqs @ take (j - i) (drop i reqs)"
    by (metis le_add_diff_inverse take_add)
  then show ?thesis
    by (simp add: draws_before_def)
qed

lemma draws_before_less:
  assumes "i < j" "i < length reqs" "omits_session_id (snd (reqs ! i))"
  shows "draws_before reqs i < draws_before reqs j"
proof -
  have "draws_before reqs (Suc i) \<le> draws_before reqs j"
    using assms(1) by (intro draws_before_mono) simp
  with draws_before_Suc [OF assms(2,3)] show ?thesis
    by simp
qed

lemma serve_generated:
  assumes "i < length reqs" and "omits_session_id (snd (reqs ! i))"
    and "snd (serve cfg c n reqs) ! i = Inr r"
  shows "session_id_out r = generated_id (n + draws_before reqs i)"
proof -
  from serve_nth [OF assms(1), of cfg c n] assms(3) obtain c' where
    "snd (chat_endpoint ((fst (reqs ! i))\<lparr>uuid4 := generated_id (n + draws_before reqs i)\<rparr>)
            cfg c' (snd (reqs ! i))) = Inr r"
    by auto
  from chat_endpoint_session_id_out [OF this] assms(2) show ?thesis
    by (auto simp: session_key_def py_or_def omits_session_id_def)
qed

lemma serve_distinct:
  assumes "i < j" "j < length reqs"
    and "omits_session_id (snd (reqs ! i))" "omits_session_id (snd (reqs ! j))"
    and "snd (serve cfg c n reqs) ! i = Inr ri" "snd (serve cfg c n reqs) ! j = Inr rj"
  shows "session_id_out ri \<noteq> session_id_out rj"
proof
  assume eq: "session_id_out ri = session_id_out rj"
  have i: "i < length reqs" using assms(1,2) by simp
  have "generated_id (n + draws_before reqs i) = generated_id (n + draws_before reqs j)"
    using serve_generated [OF i assms(3,5)] serve_generated [OF assms(2,4,6)] eq by simp
  then have "draws_before reqs i = draws_before reqs j"
    by (auto dest: generated_id_inj)
  with draws_before_less [OF assms(1) i assms(3)] show False
    by simp
qed

text \<open>
  C8 (amended): a non-empty \<open>session_id\<close> sent with the request is the session key and is
  echoed in the response, and only the key's session changes; for a request that omits
  \<open>session_id\<close> a fresh identifier is generated and used in its place, so two distinct
  such requests of the process receive two distinct generated session ids.
\<close>

theorem session_id_resolution:
  "(\<forall>s. session_id request = Some s \<and> s \<noteq> [] \<longrightarrow> session_key e request = s)
   \<and> (\<forall>r. snd (chat_endpoint e cfg c request) = Inr r \<longrightarrow> session_id_out r = session_key e request)
   \<and> (\<forall>k. k \<noteq> session_key e request \<longrightarrow> fst (chat_endpoint e cfg c request) k = c k)
   \<and> fst (chat_endpoint e cfg c request) (session_key e request) \<noteq> None
   \<and> (omits_session_id request \<longrightarrow> session_key e request = uuid4 e)
   \<and> (\<forall>i r. i < length reqs \<and> omits_session_id (snd (reqs ! i))
           \<and> snd (serve cfg c n reqs) ! i = Inr r
         \<longrightarrow> session_id_out r = generated_id (n + draws_before reqs i))
   \<and> (\<forall>i j ri rj. i < length reqs \<and> j < length reqs \<and> i \<noteq> j
           \<and> omits_session_id (snd (reqs ! i)) \<and> omits_session_id (snd (reqs ! j))
           \<and> snd (serve cfg c n reqs) ! i = Inr ri \<and> snd (serve cfg c n reqs) ! j = Inr rj
         \<longrightarrow> session_id_out ri \<noteq> session_id_out rj)"
proof -
  have d: "session_id_out ri \<noteq> session_id_out rj"
    if "i < length reqs" "j < length reqs" "i \<noteq> j"
      "omits_session_id (snd (reqs ! i))" "omits_session_id (snd (reqs ! j))"
      "snd (serve cfg c n reqs) ! i = Inr ri" "snd (serve cfg c n reqs) ! j = Inr rj"
    for i j ri rj
  proof (cases "i < j")
    case True
    then show ?thesis
      using serve_distinct [of i j reqs cfg c n ri rj] that by simp
  next
    case False
    with that(3) have "j < i" by simp
    then show ?thesis
      using serve_distinct [of j i reqs cfg c n rj ri] that by auto
  qed
  have c1: "\<forall>s. session_id request = Some s \<and> s \<noteq> [] \<longrightarrow> session_key e request = s"
    by (simp add: session_key_def py_or_def)
  have c2: "\<forall>r. snd (chat_endpoint e cfg c request) = Inr r
                \<longrightarrow> session_id_out r = session_key e request"
    using chat_endpoint_session_id_out by blast
  have c3: "\<forall>k. k \<noteq> session_key e request \<longrightarrow> fst (chat_endpoint e cfg c request) k = c k"
    by (simp add: chat_endpoint_history)
  have c4: "fst (chat_endpoint e cfg c request) (session_key e request) \<noteq> None"
    by (simp add: chat_endpoint_history)
  have c4b: "omits_session_id request \<longrightarrow> session_key e request = uuid4 e"
    by (auto simp: omits_session_id_def session_key_def py_or_def)
  have c5: "\<forall>i r. i < length reqs \<and> omits_session_id (snd (reqs ! i))
           \<and> snd (serve cfg c n reqs) ! i = Inr r
         \<longrightarrow> session_id_out r = generated_id (n + draws_before reqs i)"
    using serve_generated by blast
  have c6: "\<forall>i j ri rj. i < length reqs \<and> j < length reqs \<and> i \<noteq> j
           \<and> omits_session_id (snd (reqs ! i)) \<and> omits_session_id (snd (reqs ! j))
           \<and> snd (serve cfg c n reqs) ! i = Inr ri \<and> snd (serve cfg c n reqs) ! j = Inr rj
         \<longrightarrow> session_id_out ri \<noteq> session_id_out rj"
    using d by blast
  from c1 c2 c3 c4 c4b c5 c6 show ?thesis
    by (intro conjI)
qed

theorem session_id_resolution_witness:
  "snd (serve unset_config Map.empty 0 two_new_sessions)
     = [Inr \<lparr>ai_reply = mock_reply ''chat'' ''Hello'', grammar_correction = None,
             session_id_out = ''uuid-0''\<rparr>,
        Inr \<lparr>ai_reply = mock_reply ''chat'' ''Hello'', grammar_correction = None,
             session_id_out = ''uuid-1''\<rparr>]
   \<and> snd (chat_endpoint (canned_env (Inl ''unused'') [] ''123e4567-e89b-42d3-a456-426614174000'')
          unset_config Map.empty
          \<lparr>user_message = ''Hello'', mode = Some ''chat'', session_id = Some ''s1''\<rparr>)
     = Inr \<lparr>ai_reply = mock_reply ''chat'' ''Hello'', grammar_correction = None,
            session_id_out = ''s1''\<rparr>"
proof -
  have s: "snd (serve unset_config Map.empty 0 two_new_sessions)
     = [Inr \<lparr>ai_reply = mock_reply ''chat'' ''Hello'', grammar_correction = None,
             session_id_out = generated_id 0\<rparr>,
        Inr \<lparr>ai_reply = mock_reply ''chat'' ''Hello'', grammar_correction = None,
             session_id_out = generated_id 1\<rparr>]"
    by (simp add: two_new_sessions_def snd_serve_Cons omits_session_id_def chat_endpoint_mock
        unset_config_def mock_response_def request_mode_def session_key_def py_or_def
        del: serve.simps(2))
  have g: "generated_id 0 = ''uuid-0''" "generated_id 1 = ''uuid-1''"
    by (simp_all add: generated_id_def dec.simps digit_char_def)
  have b: "snd (chat_endpoint (canned_env (Inl ''unused'') [] ''123e4567-e89b-42d3-a456-426614174000'')
          unset_config Map.empty
          \<lparr>user_message = ''Hello'', mode = Some ''chat'', session_id = Some ''s1''\<rparr>)
     = Inr \<lparr>ai_reply = mock_reply ''chat'' ''Hello'', grammar_correction = None,
            session_id_out = ''s1''\<rparr>"
    by (simp add: chat_endpoint_mock unset_config_def mock_response_def request_mode_def
        session_key_def py_or_def)
  show ?thesis
    using session_id_resolution [of
      "\<lparr>user_message = ''Hello'', mode = Some ''chat'', session_id = Some ''s1''\<rparr>"
      "canned_env (Inl ''unused'') [] ''123e4567-e89b-42d3-a456-426614174000''" unset_config
      Map.empty two_new_sessions 0] s g b
    by simp
qed

text \<open>
  The claim as stated fails for a request that sends the empty string as \<open>session_id\<close>:
  the value is falsy, the generated identifier is used and echoed, and nothing is stored
  under the empty key.
\<close>

theorem session_id_echo_counterexample:
  "session_id \<lparr>user_message = ''Hello'', mode = Some ''chat'', session_id = Some []\<rparr> = Some []
   \<and> snd (chat_endpoint (canned_env (Inl ''unused'') [] ''123e4567-e89b-42d3-a456-426614174000'')
          unset_config Map.empty
          \<lparr>user_message = ''Hello'', mode = Some ''chat'', session_id = Some []\<rparr>)
     = Inr \<lparr>ai_reply = mock_reply ''chat'' ''Hello'', grammar_correction = None,
            session_id_out = ''123e4567-e89b-42d3-a456-426614174000''\<rparr>
   \<and> fst (chat_endpoint (canned_env (Inl ''unused'') [] ''123e4567-e89b-42d3-a456-426614174000'')
          unset_config Map.empty
          \<lparr>user_message = ''Hello'', mode = Some ''chat'', session_id = Some []\<rparr>) [] = None"
  by (simp add: chat_endpoint_mock chat_endpoint_history unset_config_def mock_response_def
      request_mode_def session_key_def py_or_def canned_env_def)

section \<open>The bound on a session's history\<close>

lemma history_of_manage_history:
  "history_of (manage_history sid m c) k =
     (if k = sid then most_recent 20 (history_of c sid @ [m]) else history_of c k)"
  by (simp add: manage_history_most_recent history_of_upd)

lemma history_of_chat_endpoint:
  "history_of (fst (chat_endpoint e cfg c request)) k =
     (if k = session_key e request
      then most_recent 20 (history_of c k @ [user_turn request, model_turn e cfg c request])
      else history_of c k)"
  by (simp add: chat_endpoint_history history_of_upd)

lemma fst_run_Cons:
  "fst (run cfg c ((e, request) # rest)) = fst (run cfg (fst (chat_endpoint e cfg c request)) rest)"
  by (simp add: Let_def split: prod.splits)

lemma run_history:
  "length (history_of c sid) \<le> 20 \<Longrightarrow>
   history_of (fst (run cfg c reqs)) sid = most_recent 20 (history_of c sid @ turns_log cfg c reqs sid)"
proof (induction reqs arbitrary: c)
  case Nil
  then show ?case by (simp add: most_recent_all)
next
  case (Cons a reqs)
  obtain e request where a: "a = (e, request)" by (cases a)
  let ?c = "fst (chat_endpoint e cfg c request)"
  let ?new = "[user_turn request, model_turn e cfg c request]"
  have len: "length (history_of ?c sid) \<le> 20"
    using Cons.prems by (simp add: history_of_chat_endpoint length_most_recent)
  have ih: "history_of (fst (run cfg ?c reqs)) sid
            = most_recent 20 (history_of ?c sid @ turns_log cfg ?c reqs sid)"
    by (rule Cons.IH [OF len])
  show ?case
  proof (cases "session_key e request = sid")
    case True
    have "most_recent 20 (most_recent 20 (history_of c sid @ ?new) @ turns_log cfg ?c reqs sid)
          = most_recent 20 ((history_of c sid @ ?new) @ turns_log cfg ?c reqs sid)"
      by (rule most_recent_append)
    then show ?thesis
      using True ih by (simp add: a fst_run_Cons history_of_chat_endpoint del: run.simps)
  next
    case False
    then show ?thesis
      using ih by (simp add: a fst_run_Cons history_of_chat_endpoint del: run.simps)
  qed
qed

lemma history_of_empty: "history_of Map.empty sid = []"
  by (simp add: history_of_def)

text \<open>
  C1: after \<open>manage_history\<close> the session holds the 20 most recent of its old entries
  followed by the new one, never more than 20, and exactly 20 when the append would
  exceed that. After any sequence of requests, starting with no sessions, the history
  stored for a session is the 20 most recent of all the turns the requests appended to
  it, in their order (a suffix of that log); the same holds from any state in which the
  session has at most 20 entries.
\<close>

theorem history_never_exceeds_20:
  "history_of (manage_history sid new_message c) sid = most_recent 20 (history_of c sid @ [new_message])
   \<and> length (history_of (manage_history sid new_message c) sid) \<le> 20
   \<and> (20 \<le> length (history_of c sid) \<longrightarrow>
        length (history_of (manage_history sid new_message c) sid) = 20)
   \<and> history_of (fst (run cfg Map.empty reqs)) sid = most_recent 20 (turns_log cfg Map.empty reqs sid)
   \<and> suffix (history_of (fst (run cfg Map.empty reqs)) sid) (turns_log cfg Map.empty reqs sid)
   \<and> length (history_of (fst (run cfg Map.empty reqs)) sid) \<le> 20
   \<and> (20 \<le> length (turns_log cfg Map.empty reqs sid) \<longrightarrow>
        length (history_of (fst (run cfg Map.empty reqs)) sid) = 20)
   \<and> (length (history_of c sid) \<le> 20 \<longrightarrow>
        history_of (fst (run cfg c reqs)) sid
          = most_recent 20 (history_of c sid @ turns_log cfg c reqs sid)
        \<and> length (history_of (fst (run cfg c reqs)) sid) \<le> 20)"
proof -
  have e: "history_of (fst (run cfg Map.empty reqs)) sid
           = most_recent 20 (turns_log cfg Map.empty reqs sid)"
    using run_history [of Map.empty sid cfg reqs] by (simp add: history_of_empty)
  have g: "history_of (fst (run cfg c reqs)) sid
          = most_recent 20 (history_of c sid @ turns_log cfg c reqs sid)
        \<and> length (history_of (fst (run cfg c reqs)) sid) \<le> 20"
    if "length (history_of c sid) \<le> 20"
    using run_history [OF that, of cfg reqs] by (simp add: length_most_recent)
  show ?thesis
    using g by (simp add: e history_of_manage_history length_most_recent most_recent_suffix)
qed

lemma turns_log_mock:
  "model cfg = None \<Longrightarrow>
   turns_log cfg c reqs sid =
     concat (map (\<lambda>(e, request).
        if session_key e request = sid
        then [user_turn request,
              \<lparr>role = ''model'', part = JString (mock_reply (request_mode request) (user_message request))\<rparr>]
        else []) reqs)"
proof (induction reqs arbitrary: c)
  case Nil
  then show ?case by simp
next
  case (Cons a reqs)
  then show ?case
    by (cases a) (simp add: model_turn_def generate_reply_mock)
qed

theorem history_never_exceeds_20_witness:
  "length (turns_log unset_config Map.empty eleven_requests ''s1'') = 22
   \<and> length (history_of (fst (run unset_config Map.empty eleven_requests)) ''s1'') = 20
   \<and> hd (history_of (fst (run unset_config Map.empty eleven_requests)) ''s1'')
       = \<lparr>role = ''user'', part = JString ''b''\<rparr>
   \<and> last (history_of (fst (run unset_config Map.empty eleven_requests)) ''s1'')
       = \<lparr>role = ''model'', part = JString (mock_reply ''chat'' ''k'')\<rparr>"
proof -
  have m: "model unset_config = None"
    by (simp add: unset_config_def)
  have t: "turns_log unset_config Map.empty eleven_requests ''s1''
           = concat (map (\<lambda>u. [\<lparr>role = ''user'', part = JString u\<rparr>,
                                \<lparr>role = ''model'', part = JString (mock_reply ''chat'' u)\<rparr>])
               [''a'', ''b'', ''c'', ''d'', ''e'', ''f'', ''g'', ''h'', ''i'', ''j'', ''k''])"
    unfolding turns_log_mock [OF m]
    by (simp add: eleven_requests_def session_key_def py_or_def canned_env_def user_turn_def
        request_mode_def)
  show ?thesis
    using history_never_exceeds_20 [of "''s1''" "\<lparr>role = ''user'', part = JString ''a''\<rparr>" Map.empty unset_config eleven_requests]
    unfolding t by (simp add: most_recent_def)
qed


section \<open>Model selection\<close>

lemma first_priority_find:
  "first_priority ps available_models = find (\<lambda>p. p \<in> set available_models) ps"
  by (induction ps) simp_all

lemma first_gemma_find:
  "first_gemma ms = find (\<lambda>m. sublist ''gemma'' m \<and> sublist ''-it'' m) ms"
  by (induction ms) (simp_all add: py_in_sublist)

lemma priority_found_nonempty:
  assumes "find P priority_models = Some p"
  shows "p \<noteq> []"
proof -
  from assms have "p \<in> set priority_models"
    by (auto simp: find_Some_iff)
  then show ?thesis
    by (auto simp: priority_models_def)
qed

lemma gemma_found_nonempty:
  assumes "find (\<lambda>m. sublist ''gemma'' m \<and> sublist ''-it'' m) ms = Some m"
  shows "m \<noteq> []"
proof -
  from assms have "sublist ''gemma'' m"
    by (auto simp: find_Some_iff)
  then show ?thesis
    by auto
qed

lemma select_model_refines: "select_model available_models = spec_select_model available_models"
proof (cases "find (\<lambda>p. p \<in> set available_models) priority_models")
  case None
  note np = this
  show ?thesis
  proof (cases "find (\<lambda>m. sublist ''gemma'' m \<and> sublist ''-it'' m) available_models")
    case None
    with np show ?thesis
      by (simp add: select_model_def spec_select_model_def first_priority_find first_gemma_find
          unset_target_def)
  next
    case (Some m)
    with np gemma_found_nonempty [OF Some] show ?thesis
      by (simp add: select_model_def spec_select_model_def first_priority_find first_gemma_find
          unset_target_def)
  qed
next
  case (Some p)
  with priority_found_nonempty [OF Some] show ?thesis
    by (simp add: select_model_def spec_select_model_def first_priority_find unset_target_def)
qed

lemma run_mock:
  "model cfg = None \<Longrightarrow>
   snd (run cfg c reqs) = map (\<lambda>(e, request). Inr (mock_response e request)) reqs"
proof (induction reqs arbitrary: c)
  case Nil
  then show ?case by simp
next
  case (Cons a reqs)
  obtain e request where a: "a = (e, request)" by (cases a)
  have "snd (run cfg c ((e, request) # reqs))
        = snd (chat_endpoint e cfg c request) # snd (run cfg (fst (chat_endpoint e cfg c request)) reqs)"
    by (simp add: Let_def split: prod.splits)
  then show ?case
    using Cons by (simp add: a chat_endpoint_mock del: run.simps)
qed

text \<open>
  C5: the selection loops compute the selection as the specification words it. Without
  a credential the provider state stays unset; an exception of \<open>configure\<close> or of the
  enumeration leaves the handle unset; otherwise the selected name is recorded and the
  handle is set unless building it raises. With the handle unset, every request of any
  sequence gets the mock response.
\<close>

theorem model_selection_bootstrap:
  "select_model available_models = spec_select_model available_models
   \<and> (api_key b = None \<or> api_key b = Some [] \<longrightarrow> bootstrap b = unset_config)
   \<and> (\<forall>k. api_key b = Some k \<and> k \<noteq> []
           \<and> (configure b k \<noteq> None \<or> (\<exists>err. list_models b = Inl err))
         \<longrightarrow> model (bootstrap b) = None)
   \<and> (\<forall>k. api_key b = Some k \<and> k \<noteq> [] \<and> configure b k = None
           \<and> list_models b = Inr available_models
         \<longrightarrow> TARGET_MODEL_NAME (bootstrap b) = select_model available_models
             \<and> model (bootstrap b)
               = (if GenerativeModel b (select_model available_models) = None
                  then Some (select_model available_models) else None))
   \<and> (model cfg = None \<longrightarrow>
        snd (run cfg c reqs) = map (\<lambda>(e, request). Inr (mock_response e request)) reqs)"
proof -
  have "model unset_config = None"
    by (simp add: unset_config_def)
  then show ?thesis
    using run_mock [of cfg c reqs]
    by (auto simp: select_model_refines bootstrap_def Let_def split: option.splits)
qed

theorem model_selection_bootstrap_witness:
  "bootstrap (demo_boot (Inr [''models/gemini-2.0-flash'', ''models/x'', ''models/gemma-3-4b-it'']))
     = \<lparr>model = Some ''models/gemma-3-4b-it'', TARGET_MODEL_NAME = ''models/gemma-3-4b-it''\<rparr>
   \<and> select_model [''models/x'', ''models/gemma-2-2b-it'', ''models/gemma-2-9b-it'']
     = ''models/gemma-2-2b-it''
   \<and> select_model [''models/x'', ''models/y''] = ''models/x''
   \<and> select_model [] = ''models/gemini-1.5-flash''
   \<and> model (bootstrap (demo_boot (Inl ''403 API key not valid''))) = None"
  using model_selection_bootstrap [of "[''models/gemini-2.0-flash'', ''models/x'', ''models/gemma-3-4b-it'']"
      "demo_boot (Inr [''models/gemini-2.0-flash'', ''models/x'', ''models/gemma-3-4b-it''])"]
    model_selection_bootstrap [of "[]" "demo_boot (Inl ''403 API key not valid'')"]
  by (simp add: demo_boot_def api_key_def select_model_def priority_models_def unset_target_def)

section \<open>Splitting\<close>

lemma split_go_skip:
  "split_go sep (length xs) cur (xs @ rest) = split_go sep 0 cur rest"
  by (induction xs) simp_all

text \<open>A split has at least one piece, so its first and its last piece exist.\<close>

lemma split_go_nonempty: "split_go sep skip cur s \<noteq> []"
  by (induction s arbitrary: skip cur) simp_all

lemma py_split_nonempty: "py_split sep s \<noteq> []"
  by (simp add: py_split_def split_go_nonempty)

lemma split_go_no_occurrence:
  "\<not> py_in sep s \<Longrightarrow> split_go sep 0 cur s = [rev cur @ s]"
  by (induction s arbitrary: cur) simp_all

lemma split_go_first_occurrence:
  assumes "sep \<noteq> []"
    and "\<And>p2. suffix p2 pre \<Longrightarrow> p2 \<noteq> [] \<Longrightarrow> \<not> prefix sep (p2 @ sep @ rest)"
  shows "split_go sep 0 cur (pre @ sep @ rest) = (rev cur @ pre) # split_go sep 0 [] rest"
  using assms(2)
proof (induction pre arbitrary: cur)
  case Nil
  from assms(1) obtain c sep' where sep: "sep = c # sep'"
    by (cases sep) auto
  have "split_go sep 0 cur (sep @ rest) = rev cur # split_go sep (length sep') [] (sep' @ rest)"
    by (simp add: sep)
  then show ?case
    by (simp add: split_go_skip)
next
  case (Cons a pre)
  have np: "\<not> prefix sep ((a # pre) @ sep @ rest)"
    by (rule Cons.prems) simp_all
  have "split_go sep 0 (a # cur) (pre @ sep @ rest) = (rev (a # cur) @ pre) # split_go sep 0 [] rest"
    by (rule Cons.IH) (simp add: Cons.prems suffix_Cons)
  with np show ?case
    by simp
qed

lemma py_split_single:
  assumes "sep \<noteq> []"
    and "\<And>p2. suffix p2 pre \<Longrightarrow> p2 \<noteq> [] \<Longrightarrow> \<not> prefix sep (p2 @ sep @ rest)"
  shows "hd (py_split sep (pre @ sep @ rest)) = pre"
    and "\<not> py_in sep rest \<Longrightarrow> last (py_split sep (pre @ sep @ rest)) = rest"
  using split_go_first_occurrence [OF assms, where cur = "[]"]
  by (simp_all add: py_split_def split_go_no_occurrence)

text \<open>A separator that begins within \<open>p2\<close> and ends behind it is a border of itself.\<close>

lemma straddle:
  assumes "prefix sep (p2 @ sep @ rest)" and "\<not> prefix sep p2"
  shows "\<exists>k < length sep. p2 = take k sep \<and> prefix (drop k sep) sep"
proof -
  have short: "length p2 < length sep"
  proof (rule ccontr)
    assume "\<not> length p2 < length sep"
    then have "length sep \<le> length p2" by simp
    with assms(1) have "prefix sep p2"
      by (auto simp: prefix_append dest: prefix_length_le)
    with assms(2) show False by simp
  qed
  from assms(1) obtain zs where z: "p2 @ sep @ rest = sep @ zs"
    by (auto simp: prefix_def)
  have "take (length sep) (p2 @ sep @ rest) = sep"
    unfolding z by simp
  with short have eq: "p2 @ take (length sep - length p2) sep = sep"
    by simp
  from eq have "take (length p2) sep = p2"
    by (metis append_eq_conv_conj)
  moreover from eq have "drop (length p2) sep = take (length sep - length p2) sep"
    by (metis append_eq_conv_conj)
  ultimately show ?thesis
    using short by (metis take_is_prefix)
qed


section \<open>The fences\<close>

lemma fence_json_border:
  "k < length fence_json \<Longrightarrow> prefix (drop k fence_json) fence_json \<Longrightarrow> k = 0"
  by (auto simp: fence_json_def less_Suc_eq numeral_eq_Suc)

lemma fence_short_prefix:
  "k < length fence \<Longrightarrow> k \<noteq> 0 \<Longrightarrow> last (take k fence) = CHR 0x60"
  by (auto simp: fence_def less_Suc_eq numeral_eq_Suc)

lemma sublist_fence_fence_json: "sublist fence fence_json"
  by (rule prefix_imp_sublist) (simp add: fence_def fence_json_def)

lemma suffix_prefix_sublist:
  "suffix p2 xs \<Longrightarrow> prefix sep p2 \<Longrightarrow> sublist sep xs"
  by (meson prefix_imp_sublist suffix_imp_sublist sublist_order.order.trans)

lemma fence_json_first:
  assumes "\<not> sublist fence_json pre" and "suffix p2 pre" and "p2 \<noteq> []"
  shows "\<not> prefix fence_json (p2 @ fence_json @ rest)"
proof
  assume p: "prefix fence_json (p2 @ fence_json @ rest)"
  have np: "\<not> prefix fence_json p2"
    using assms(1,2) suffix_prefix_sublist by blast
  from straddle [OF p np] obtain k where
    k: "k < length fence_json" "p2 = take k fence_json" "prefix (drop k fence_json) fence_json"
    by blast
  from fence_json_border [OF k(1) k(3)] have "k = 0" .
  with k(2) assms(3) show False by simp
qed

lemma fence_first:
  assumes "\<not> sublist fence inner" and "inner = [] \<or> last inner \<noteq> CHR 0x60"
    and "suffix p2 inner" and "p2 \<noteq> []"
  shows "\<not> prefix fence (p2 @ fence @ rest)"
proof
  assume p: "prefix fence (p2 @ fence @ rest)"
  have np: "\<not> prefix fence p2"
    using assms(1,3) suffix_prefix_sublist by blast
  from straddle [OF p np] obtain k where
    k: "k < length fence" "p2 = take k fence"
    by blast
  from k(2) assms(4) have "k \<noteq> 0" by auto
  from fence_short_prefix [OF k(1) this] k(2) have "last p2 = CHR 0x60" by simp
  moreover from assms(3,4) have "last inner = last p2" "inner \<noteq> []"
    by (auto simp: suffix_def)
  ultimately show False
    using assms(2) by simp
qed

lemma fence_json_split_cases:
  "fence_json = xs1 @ xs2 \<Longrightarrow> xs1 = [] \<or> last xs1 = CHR 0x60 \<or> prefix fence xs1"
  by (auto simp: fence_json_def fence_def Cons_eq_append_conv)

lemma no_fence_json_behind:
  assumes "\<not> sublist fence inner" and "inner = [] \<or> last inner \<noteq> CHR 0x60"
    and "\<not> sublist fence_json (fence @ post)"
  shows "\<not> sublist fence_json (inner @ fence @ post)"
proof
  assume "sublist fence_json (inner @ fence @ post)"
  then consider "sublist fence_json inner" | "sublist fence_json (fence @ post)"
    | xs1 xs2 where "fence_json = xs1 @ xs2" "suffix xs1 inner" "prefix xs2 (fence @ post)"
    by (auto simp: sublist_append)
  then show False
  proof cases
    case 1
    then have "sublist fence inner"
      using sublist_fence_fence_json sublist_order.order.trans by blast
    with assms(1) show False by simp
  next
    case 2
    with assms(3) show False by simp
  next
    case 3
    from fence_json_split_cases [OF 3(1)]
    consider "xs1 = []" | "xs1 \<noteq> []" "last xs1 = CHR 0x60" | "prefix fence xs1" by blast
    then show False
    proof cases
      case 1
      with 3 have "prefix fence_json (fence @ post)" by simp
      with assms(3) show False by auto
    next
      case 2
      with 3(2) have "last inner = CHR 0x60" "inner \<noteq> []"
        by (auto simp: suffix_def)
      with assms(2) show False by simp
    next
      case 3
      with \<open>suffix xs1 inner\<close> assms(1) suffix_prefix_sublist show False by blast
    qed
  qed
qed

lemma extract_unfenced:
  assumes "\<not> sublist fence (py_strip raw)"
  shows "extract_json_text raw = py_strip raw"
proof -
  have "\<not> sublist fence_json (py_strip raw)"
    using assms sublist_fence_fence_json sublist_order.order.trans by blast
  with assms show ?thesis
    by (simp add: extract_json_text_def py_in_sublist)
qed

lemma extract_fenced:
  assumes "py_strip raw = pre @ fence_json @ inner @ fence @ post"
    and "\<not> sublist fence_json pre"
    and "\<not> sublist fence inner" and "inner = [] \<or> last inner \<noteq> CHR 0x60"
    and "\<not> sublist fence_json (fence @ post)"
  shows "extract_json_text raw = py_strip inner"
proof -
  have fj: "fence_json \<noteq> []" and f: "fence \<noteq> []"
    by (simp_all add: fence_json_def fence_def)
  have "py_in fence_json (py_strip raw)"
    by (simp add: assms(1) py_in_sublist)
  moreover have "last (py_split fence_json (py_strip raw)) = inner @ fence @ post"
    unfolding assms(1)
    by (rule py_split_single(2) [OF fj])
      (simp_all add: fence_json_first [OF assms(2)] py_in_sublist
        no_fence_json_behind [OF assms(3,4,5)])
  moreover have "hd (py_split fence (inner @ fence @ post)) = inner"
    by (rule py_split_single(1) [OF f]) (simp add: fence_first [OF assms(3,4)])
  ultimately show ?thesis
    by (simp add: extract_json_text_def)
qed


section \<open>Extraction of the JSON text\<close>

text \<open>
  C2 (amended): when the provider's text, stripped, either contains no triple backtick
  and is the JSON text itself, or consists of some text without an opening fence, the
  opening fence \<open>```json\<close>, the JSON text, a closing fence \<open>```\<close> and a rest in which no
  further opening fence begins, where the JSON text contains no triple backtick and does
  not end in a backtick, then the text handed to the decoder is the stripped JSON text,
  and for an object with a string \<open>ai_reply\<close> and a string or null
  \<open>grammar_correction\<close> the endpoint returns the two fields as they are.
\<close>

theorem json_fields_verbatim:
  assumes "model cfg = Some m"
    and "provider_call e cfg c request m = Inr raw"
    and "(content = py_strip raw \<and> \<not> sublist fence (py_strip raw))
         \<or> (\<exists>pre inner post.
               py_strip raw = pre @ fence_json @ inner @ fence @ post
               \<and> \<not> sublist fence_json pre
               \<and> \<not> sublist fence inner \<and> (inner = [] \<or> last inner \<noteq> CHR 0x60)
               \<and> \<not> sublist fence_json (fence @ post)
               \<and> content = py_strip inner)"
    and "json_loads e content = Inr (JObject kvs)"
    and "map_of kvs ''ai_reply'' = Some (JString a)"
    and "(map_of kvs ''grammar_correction'' = Some JNull \<and> g = None)
         \<or> (\<exists>s. map_of kvs ''grammar_correction'' = Some (JString s) \<and> g = Some s)"
  shows "extract_json_text raw = content
       \<and> snd (chat_endpoint e cfg c request)
         = Inr \<lparr>ai_reply = a, grammar_correction = g, session_id_out = session_key e request\<rparr>"
proof -
  have x: "extract_json_text raw = content"
    using assms(3) extract_unfenced extract_fenced by blast
  have "snd (chat_endpoint e cfg c request) =
           ChatResponse (dict_get kvs ''ai_reply'' (JString default_reply))
             (dict_get kvs ''grammar_correction'' JNull) (session_key e request)"
    by (rule chat_endpoint_object [OF assms(1,2)]) (simp add: x assms(4))
  with x assms(5,6) show ?thesis
    by (auto simp: dict_get_def ChatResponse_def)
qed

theorem json_fields_verbatim_witness:
  \<open>snd (chat_endpoint
          (canned_env (Inr ''```json\<newline>{"ai_reply":"hi","grammar_correction":null}\<newline>```'')
             [(''{"ai_reply":"hi","grammar_correction":null}'',
               Inr (JObject [(''ai_reply'', JString ''hi''), (''grammar_correction'', JNull)]))]
             ''123e4567-e89b-42d3-a456-426614174000'')
          gemma_config Map.empty
          \<lparr>user_message = ''Hello'', mode = Some ''chat'', session_id = Some ''s1''\<rparr>)
    = Inr \<lparr>ai_reply = ''hi'', grammar_correction = None, session_id_out = ''s1''\<rparr>
   \<and> snd (chat_endpoint
          (canned_env (Inr ''{"ai_reply":"ok","grammar_correction":"fix x"}'')
             [(''{"ai_reply":"ok","grammar_correction":"fix x"}'',
               Inr (JObject [(''ai_reply'', JString ''ok''),
                             (''grammar_correction'', JString ''fix x'')]))]
             ''123e4567-e89b-42d3-a456-426614174000'')
          gemma_config Map.empty
          \<lparr>user_message = ''Hello'', mode = Some ''chat'', session_id = Some ''s1''\<rparr>)
    = Inr \<lparr>ai_reply = ''ok'', grammar_correction = Some ''fix x'', session_id_out = ''s1''\<rparr>\<close>
proof -
  let ?rq = "\<lparr>user_message = ''Hello'', mode = Some ''chat'', session_id = Some ''s1''\<rparr>"
  let ?j1 = \<open>''{"ai_reply":"hi","grammar_correction":null}''\<close>
  let ?raw1 = \<open>''```json\<newline>{"ai_reply":"hi","grammar_correction":null}\<newline>```''\<close>
  let ?e1 = "canned_env (Inr ?raw1)
             [(?j1, Inr (JObject [(''ai_reply'', JString ''hi''), (''grammar_correction'', JNull)]))]
             ''123e4567-e89b-42d3-a456-426614174000''"
  let ?j2 = \<open>''{"ai_reply":"ok","grammar_correction":"fix x"}''\<close>
  let ?e2 = "canned_env (Inr ?j2)
             [(?j2, Inr (JObject [(''ai_reply'', JString ''ok''),
                                  (''grammar_correction'', JString ''fix x'')]))]
             ''123e4567-e89b-42d3-a456-426614174000''"
  have m: "model gemma_config = Some ''models/gemma-3-27b-it''"
    by (simp add: gemma_config_def)
  have p1: "provider_call ?e1 gemma_config Map.empty ?rq ''models/gemma-3-27b-it'' = Inr ?raw1"
    by (simp add: provider_call_def canned_env_def)
  have p2: "provider_call ?e2 gemma_config Map.empty ?rq ''models/gemma-3-27b-it'' = Inr ?j2"
    by (simp add: provider_call_def canned_env_def)
  have s1: "py_strip ?raw1 = [] @ fence_json @ (CHR ''\<newline>'' # ?j1 @ ''\<newline>'') @ fence @ []"
    by (simp add: eval_strings)
  have w1: "\<exists>pre inner post.
               py_strip ?raw1 = pre @ fence_json @ inner @ fence @ post
               \<and> \<not> sublist fence_json pre
               \<and> \<not> sublist fence inner \<and> (inner = [] \<or> last inner \<noteq> CHR 0x60)
               \<and> \<not> sublist fence_json (fence @ post)
               \<and> ?j1 = py_strip inner"
    apply (rule exI [of _ "[]"])
    apply (rule exI [of _ "CHR ''\<newline>'' # ?j1 @ ''\<newline>''"])
    apply (rule exI [of _ "[]"])
    apply (simp only: s1 py_in_sublist [symmetric])
    apply (simp add: eval_strings)
    done
  have w2: "?j2 = py_strip ?j2 \<and> \<not> sublist fence (py_strip ?j2)"
    by (simp add: py_in_sublist [symmetric] eval_strings)
  have l1: "json_loads ?e1 ?j1
            = Inr (JObject [(''ai_reply'', JString ''hi''), (''grammar_correction'', JNull)])"
    by (simp add: canned_env_def)
  have l2: "json_loads ?e2 ?j2
            = Inr (JObject [(''ai_reply'', JString ''ok''), (''grammar_correction'', JString ''fix x'')])"
    by (simp add: canned_env_def)
  have k1: "session_key ?e1 ?rq = ''s1''" and k2: "session_key ?e2 ?rq = ''s1''"
    by (simp_all add: session_key_def py_or_def)
  have r1: "snd (chat_endpoint ?e1 gemma_config Map.empty ?rq)
            = Inr \<lparr>ai_reply = ''hi'', grammar_correction = None, session_id_out = ''s1''\<rparr>"
    using json_fields_verbatim [OF m p1 disjI2 [OF w1] l1, of "''hi''" None] k1 by simp
  have r2: "snd (chat_endpoint ?e2 gemma_config Map.empty ?rq)
            = Inr \<lparr>ai_reply = ''ok'', grammar_correction = Some ''fix x'', session_id_out = ''s1''\<rparr>"
    using json_fields_verbatim [OF m p2 disjI1 [OF w2] l2, of "''ok''" "Some ''fix x''"] k2 by simp
  from r1 r2 show ?thesis by simp
qed

text \<open>
  The claim as stated fails on a valid two-field object whose text contains a triple
  backtick: the text is cut at it and the remainder does not decode. It also fails on
  an object wrapped in a plain fence, where the text behind the closing fence is taken.
\<close>

theorem json_fields_verbatim_counterexample:
  \<open>extract_json_text ''{"ai_reply":"```","grammar_correction":null}''
     = ''","grammar_correction":null}''
   \<and> snd (chat_endpoint
          (canned_env (Inr ''{"ai_reply":"```","grammar_correction":null}'')
             [(''{"ai_reply":"```","grammar_correction":null}'',
               Inr (JObject [(''ai_reply'', JString ''```''), (''grammar_correction'', JNull)])),
              (''","grammar_correction":null}'', Inl ''Extra data: line 1 column 4 (char 3)'')]
             ''123e4567-e89b-42d3-a456-426614174000'')
          gemma_config Map.empty
          \<lparr>user_message = ''Hello'', mode = Some ''chat'', session_id = Some ''s1''\<rparr>)
    = Inr \<lparr>ai_reply = ''I\'m having trouble connecting to my brain right now. Error details: Extra data: line 1 column 4 (char 3)'',
           grammar_correction = None, session_id_out = ''s1''\<rparr>
   \<and> extract_json_text ''```\<newline>{"ai_reply":"hi","grammar_correction":null}\<newline>```'' = []
   \<and> snd (chat_endpoint
          (canned_env (Inr ''```\<newline>{"ai_reply":"hi","grammar_correction":null}\<newline>```'')
             [(''{"ai_reply":"hi","grammar_correction":null}'',
               Inr (JObject [(''ai_reply'', JString ''hi''), (''grammar_correction'', JNull)])),
              ([], Inl ''Expecting value: line 1 column 1 (char 0)'')]
             ''123e4567-e89b-42d3-a456-426614174000'')
          gemma_config Map.empty
          \<lparr>user_message = ''Hello'', mode = Some ''chat'', session_id = Some ''s1''\<rparr>)
    = Inr \<lparr>ai_reply = ''I\'m having trouble connecting to my brain right now. Error details: Expecting value: line 1 column 1 (char 0)'',
           grammar_correction = None, session_id_out = ''s1''\<rparr>\<close>
proof -
  have x1: \<open>extract_json_text ''{"ai_reply":"```","grammar_correction":null}''
     = ''","grammar_correction":null}''\<close>
    by (simp add: extract_json_text_def eval_strings)
  have x2: \<open>extract_json_text ''```\<newline>{"ai_reply":"hi","grammar_correction":null}\<newline>```'' = []\<close>
    by (simp add: extract_json_text_def eval_strings)
  show ?thesis
    unfolding x1 x2
    by (simp add: gemma_config_def canned_env_def session_key_def py_or_def x1 x2
      chat_endpoint_snd generate_reply_def try_block_def ChatResponse_def error_reply_def)
qed

end
